theory Spec2Isabelle
  imports Complex_Main
begin

section \<open>Preliminaries: errors, strings, clock\<close>

text \<open>
  A JavaScript \<^verbatim>\<open>throw new Error(msg)\<close> is the value \<open>Inl (Error msg)\<close>; a normal
  return is \<open>Inr\<close>.  \<^verbatim>\<open>new Date()\<close> reads a clock, which every operation below
  receives as the argument \<open>now\<close>.

  A string is a list of UTF-16 code units below 256 (the Latin-1 range), so that
  \<open>length\<close> is the \<^verbatim>\<open>length\<close> of the JavaScript string.  \<open>is_ws\<close> holds of the
  code units in that range which \<^verbatim>\<open>String.prototype.trim\<close> removes and \<^verbatim>\<open>\s\<close>
  matches: tab, line feed, vertical tab, form feed, carriage return, space and the
  no-break space U+00A0.
\<close>

datatype error = Error string

type_synonym date = nat

definition is_ws :: "char \<Rightarrow> bool" where
  "is_ws c = (c \<in> set [CHR '' '', CHR 0x09, CHR 0x0A, CHR 0x0B, CHR 0x0C, CHR 0x0D, CHR 0xA0])"

definition trim :: "string \<Rightarrow> string" where
  "trim s = rev (dropWhile is_ws (rev (dropWhile is_ws s)))"

text \<open>
  A JavaScript number and a PostgreSQL \<^verbatim>\<open>float8\<close> are IEEE doubles.  A similarity
  score is computed by a division by two vector norms, so it can be the not-a-number
  value; the model keeps that case apart: \<open>Num x\<close> is a number, \<open>NaN\<close> is
  not-a-number.  The two run times compare them differently.  In JavaScript every
  comparison with NaN is false (\<open>js_ge\<close> is \<^verbatim>\<open>>=\<close> of JavaScript).  PostgreSQL
  treats NaN as equal to itself and greater than every number, in comparisons and in
  ORDER BY alike (\<open>pg_ge\<close> is \<^verbatim>\<open>>=\<close> of PostgreSQL).  \<open>minus_from a x\<close> is
  \<^verbatim>\<open>a - x\<close>, which is NaN when \<open>x\<close> is, in both.
\<close>

datatype number = Num real | NaN

fun js_ge :: "number \<Rightarrow> number \<Rightarrow> bool" where
  "js_ge (Num a) (Num b) = (a \<ge> b)"
| "js_ge (Num a) NaN = False"
| "js_ge NaN b = False"

fun pg_ge :: "number \<Rightarrow> number \<Rightarrow> bool" where
  "pg_ge (Num a) (Num b) = (a \<ge> b)"
| "pg_ge (Num a) NaN = False"
| "pg_ge NaN b = True"

fun minus_from :: "real \<Rightarrow> number \<Rightarrow> number" where
  "minus_from a (Num x) = Num (a - x)"
| "minus_from a NaN = NaN"

fun is_NaN :: "number \<Rightarrow> bool" where
  "is_NaN NaN = True"
| "is_NaN (Num x) = False"

fun num_value :: "number \<Rightarrow> real" where
  "num_value (Num x) = x"
| "num_value NaN = 0"

datatype MetadataValue =
    MString string
  | MNumber int
  | MBoolean bool
  | MNull
  | MArray "MetadataValue list"
  | MObject "(string \<times> MetadataValue) list"

type_synonym SourceMetadata = "string \<rightharpoonup> MetadataValue"

text \<open>The object spread \<^verbatim>\<open>{ ...a, ...b }\<close>, where \<open>a\<close> may be undefined.\<close>

definition spread :: "SourceMetadata option \<Rightarrow> SourceMetadata \<Rightarrow> SourceMetadata" where
  "spread a b = (case a of None \<Rightarrow> b | Some m \<Rightarrow> m ++ b)"

section \<open>KnowledgeSource entity (knowledge-source.entity.ts)\<close>

datatype SourceType = PDF | MARKDOWN | URL

record KnowledgeSource =
  ks_id :: "string option"
  ks_title :: string
  ks_sectorId :: string
  ks_sourceType :: SourceType
  ks_content :: string
  ks_metadata :: "SourceMetadata option"
  ks_status :: string
  ks_errorMessage :: "string option"
  ks_createdAt :: date
  ks_updatedAt :: date
  ks_deletedAt :: "date option"

record KnowledgeSourceData =
  d_title :: string
  d_sectorId :: string
  d_sourceType :: SourceType
  d_content :: string
  d_metadata :: "SourceMetadata option"

definition MAX_TITLE_LENGTH :: nat where
  "MAX_TITLE_LENGTH = 255"

text \<open>
  \<open>KnowledgeSource.validate\<close>.  The membership test of \<open>sourceType\<close> in
  \<^verbatim>\<open>Object.values(SourceType)\<close> holds for every value of the datatype.
\<close>

definition ks_validate :: "KnowledgeSourceData \<Rightarrow> error + unit" where
  "ks_validate d =
     (if d_title d = [] \<or> trim (d_title d) = [] then Inl (Error ''Title cannot be empty'')
      else if length (d_title d) > MAX_TITLE_LENGTH
        then Inl (Error ''Title cannot exceed 255 characters'')
      else if d_sectorId d = [] \<or> trim (d_sectorId d) = []
        then Inl (Error ''SectorId cannot be empty'')
      else if d_sourceType d \<notin> set [PDF, MARKDOWN, URL] then Inl (Error ''Invalid source type'')
      else if d_content d = [] \<or> trim (d_content d) = []
        then Inl (Error ''Content cannot be empty'')
      else Inr ())"

definition KnowledgeSource_new :: "date \<Rightarrow> KnowledgeSourceData \<Rightarrow> error + KnowledgeSource" where
  "KnowledgeSource_new now d =
     (case ks_validate d of
        Inl e \<Rightarrow> Inl e
      | Inr _ \<Rightarrow> Inr \<lparr> ks_id = None, ks_title = d_title d, ks_sectorId = d_sectorId d,
                      ks_sourceType = d_sourceType d, ks_content = d_content d,
                      ks_metadata = d_metadata d, ks_status = ''PENDING'',
                      ks_errorMessage = None, ks_createdAt = now, ks_updatedAt = now,
                      ks_deletedAt = None \<rparr>)"

definition isDeleted :: "KnowledgeSource \<Rightarrow> bool" where
  "isDeleted s = (ks_status s = ''DELETED'')"

definition ensureNotDeleted :: "KnowledgeSource \<Rightarrow> error + unit" where
  "ensureNotDeleted s =
     (if isDeleted s then Inl (Error ''Cannot modify deleted source'') else Inr ())"

definition markAsProcessing :: "date \<Rightarrow> KnowledgeSource \<Rightarrow> error + KnowledgeSource" where
  "markAsProcessing now s =
     (case ensureNotDeleted s of
        Inl e \<Rightarrow> Inl e
      | Inr _ \<Rightarrow> Inr (s\<lparr> ks_status := ''PROCESSING'', ks_updatedAt := now \<rparr>))"

definition markAsCompleted :: "date \<Rightarrow> KnowledgeSource \<Rightarrow> error + KnowledgeSource" where
  "markAsCompleted now s =
     (case ensureNotDeleted s of
        Inl e \<Rightarrow> Inl e
      | Inr _ \<Rightarrow>
          if ks_status s \<noteq> ''PROCESSING''
          then Inl (Error ''Cannot mark as completed: source is not being processed'')
          else Inr (s\<lparr> ks_status := ''COMPLETED'', ks_updatedAt := now \<rparr>))"

definition markAsFailed :: "date \<Rightarrow> string \<Rightarrow> KnowledgeSource \<Rightarrow> error + KnowledgeSource" where
  "markAsFailed now errorMessage s =
     (case ensureNotDeleted s of
        Inl e \<Rightarrow> Inl e
      | Inr _ \<Rightarrow> Inr (s\<lparr> ks_status := ''FAILED'', ks_errorMessage := Some errorMessage,
                          ks_updatedAt := now \<rparr>))"

definition delete_source :: "date \<Rightarrow> KnowledgeSource \<Rightarrow> KnowledgeSource" where
  "delete_source now s =
     s\<lparr> ks_status := ''DELETED'', ks_deletedAt := Some now, ks_updatedAt := now \<rparr>"

definition updateMetadata :: "date \<Rightarrow> SourceMetadata \<Rightarrow> KnowledgeSource \<Rightarrow> error + KnowledgeSource" where
  "updateMetadata now newMetadata s =
     (case ensureNotDeleted s of
        Inl e \<Rightarrow> Inl e
      | Inr _ \<Rightarrow> Inr (s\<lparr> ks_metadata := Some (spread (ks_metadata s) newMetadata),
                          ks_updatedAt := now \<rparr>))"

text \<open>A source that has finished ingestion, used as a concrete input below.\<close>

definition completed_source :: KnowledgeSource where
  "completed_source =
     \<lparr> ks_id = Some ''source-1'', ks_title = ''Handbook'', ks_sectorId = ''hr'',
       ks_sourceType = PDF, ks_content = ''Vacation policy text'', ks_metadata = None,
       ks_status = ''COMPLETED'', ks_errorMessage = None, ks_createdAt = 1,
       ks_updatedAt = 2, ks_deletedAt = None \<rparr>"

section \<open>Fragment entity (fragment.entity.ts)\<close>

text \<open>
  The field \<open>embedding\<close> is declared \<^verbatim>\<open>number[]\<close>, but the constructor tests it
  against null and the mapper stores null in it, so the model gives it an option type.
  \<open>tokenCount\<close> and \<open>updatedAt\<close> are the properties the mapper attaches with
  \<^verbatim>\<open>Reflect.set\<close>.
\<close>

record Fragment =
  f_id :: "string option"
  f_sourceId :: string
  f_content :: string
  f_position :: int
  f_embedding :: "real list option"
  f_metadata :: "SourceMetadata option"
  f_createdAt :: date
  f_tokenCount :: "int option"
  f_updatedAt :: "date option"

record FragmentData =
  fd_sourceId :: string
  fd_content :: string
  fd_position :: int
  fd_embedding :: "real list option"
  fd_metadata :: "SourceMetadata option"

definition VALID_DIMENSIONS :: "nat list" where
  "VALID_DIMENSIONS = [768, 1536]"

definition validateEmbeddingDimension :: "real list \<Rightarrow> error + unit" where
  "validateEmbeddingDimension embedding =
     (if length embedding \<notin> set VALID_DIMENSIONS
      then Inl (Error ''Embedding must be 768 or 1536 dimensions'')
      else Inr ())"

definition fragment_validate :: "FragmentData \<Rightarrow> error + unit" where
  "fragment_validate d =
     (if fd_sourceId d = [] \<or> trim (fd_sourceId d) = []
        then Inl (Error ''SourceId cannot be empty'')
      else if fd_content d = [] \<or> trim (fd_content d) = []
        then Inl (Error ''Content cannot be empty'')
      else if length (fd_content d) < 10
        then Inl (Error ''Content must be at least 10 characters long'')
      else if fd_position d < 0 then Inl (Error ''Position cannot be negative'')
      else (case fd_embedding d of
              None \<Rightarrow> Inl (Error ''Embedding cannot be null or undefined'')
            | Some e \<Rightarrow>
                if length e = 0 then Inl (Error ''Embedding array cannot be empty'')
                else validateEmbeddingDimension e))"

definition Fragment_new :: "date \<Rightarrow> FragmentData \<Rightarrow> error + Fragment" where
  "Fragment_new now d =
     (case fragment_validate d of
        Inl e \<Rightarrow> Inl e
      | Inr _ \<Rightarrow> Inr \<lparr> f_id = None, f_sourceId = fd_sourceId d, f_content = fd_content d,
                      f_position = fd_position d, f_embedding = fd_embedding d,
                      f_metadata = fd_metadata d, f_createdAt = now,
                      f_tokenCount = None, f_updatedAt = None \<rparr>)"

definition updateEmbedding :: "real list \<Rightarrow> Fragment \<Rightarrow> error + Fragment" where
  "updateEmbedding newEmbedding f =
     (case validateEmbeddingDimension newEmbedding of
        Inl e \<Rightarrow> Inl e
      | Inr _ \<Rightarrow> Inr (f\<lparr> f_embedding := Some newEmbedding \<rparr>))"

section \<open>EmbeddingService configuration (embedding.service.ts)\<close>

text \<open>
  The sources hold two snapshots of embedding.service.ts.  They differ in the default
  model, in the allow-list of dimensions (256, 512, 768, 1536 with default 768 in one;
  768, 1536, 3072 with default 3072 in the other), in the name of the environment
  variable of the API key, and in that the first returns the provider's answer as it
  is where the second unwraps the vector of its first element.  The second, which is
  the one the unit test of the service exercises, is modelled here and in the section
  on the embedding service below; the batching of \<open>generateEmbeddings\<close> is the same
  in both.
\<close>

definition SUPPORTED_DIMENSIONS :: "nat list" where
  "SUPPORTED_DIMENSIONS = [768, 1536, 3072]"

definition DEFAULT_EMBEDDING_DIMENSIONS :: nat where
  "DEFAULT_EMBEDDING_DIMENSIONS = 3072"

record EmbeddingConfig =
  cfg_model :: string
  cfg_dimensions :: int
  cfg_batchSize :: int
  cfg_apiKey :: "string option"

definition validateConfig :: "EmbeddingConfig \<Rightarrow> error + unit" where
  "validateConfig c =
     (if cfg_dimensions c \<le> 0 then Inl (Error ''Dimensions must be a positive number'')
      else if cfg_batchSize c \<le> 0 then Inl (Error ''Batch size must be a positive number'')
      else if cfg_dimensions c \<notin> int ` set SUPPORTED_DIMENSIONS
        then Inl (Error ''Invalid dimensions. Supported dimensions: 768, 1536, 3072'')
      else Inr ())"

section \<open>Fragment persistence (fragment.model.ts, fragment.mapper.ts)\<close>

record FragmentModel =
  fm_id :: string
  fm_sourceId :: string
  fm_content :: string
  fm_embedding :: "string option"
  fm_position :: int
  fm_tokenCount :: int
  fm_metadata :: "SourceMetadata option"
  fm_createdAt :: date
  fm_updatedAt :: date

definition DEFAULT_EMBEDDING_DIMENSION :: nat where
  "DEFAULT_EMBEDDING_DIMENSION = 768"

text \<open>
  \<open>FragmentMapper.parseEmbedding\<close>.  \<^verbatim>\<open>JSON.parse\<close> followed by the number-array
  type guard is the parameter \<open>json\<close>: it yields the vector written in the text, or
  \<open>None\<close> where the source returns null (malformed text, or not an array of numbers).
\<close>

definition parseEmbedding :: "(string \<Rightarrow> real list option) \<Rightarrow> string option \<Rightarrow> real list option" where
  "parseEmbedding json embedding =
     (case embedding of
        None \<Rightarrow> None
      | Some s \<Rightarrow> if s = [] then None else json s)"

definition toDomain :: "(string \<Rightarrow> real list option) \<Rightarrow> date \<Rightarrow> FragmentModel \<Rightarrow> error + Fragment" where
  "toDomain json now model =
     (let parsedEmbedding = parseEmbedding json (fm_embedding model);
          tempEmbedding = (case parsedEmbedding of
                             None \<Rightarrow> replicate DEFAULT_EMBEDDING_DIMENSION 0
                           | Some e \<Rightarrow> e)
      in case Fragment_new now \<lparr> fd_sourceId = fm_sourceId model, fd_content = fm_content model,
                                  fd_position = fm_position model,
                                  fd_embedding = Some tempEmbedding,
                                  fd_metadata = fm_metadata model \<rparr> of
           Inl e \<Rightarrow> Inl e
         | Inr fragment \<Rightarrow>
             (let fragment1 = fragment\<lparr> f_id := Some (fm_id model),
                                         f_tokenCount := Some (fm_tokenCount model),
                                         f_createdAt := fm_createdAt model,
                                         f_updatedAt := Some (fm_updatedAt model) \<rparr>
              in if fm_embedding model = None
                 then Inr (fragment1\<lparr> f_embedding := None \<rparr>)
                 else Inr fragment1))"

text \<open>\<open>toDomainArray\<close>: the first model that fails to map aborts the whole map.\<close>

fun toDomainArray :: "(string \<Rightarrow> real list option) \<Rightarrow> date \<Rightarrow> FragmentModel list \<Rightarrow> error + Fragment list" where
  "toDomainArray json now [] = Inr []"
| "toDomainArray json now (m # ms) =
     (case toDomain json now m of
        Inl e \<Rightarrow> Inl e
      | Inr f \<Rightarrow> (case toDomainArray json now ms of
                    Inl e \<Rightarrow> Inl e
                  | Inr fs \<Rightarrow> Inr (f # fs)))"

text \<open>
  \<open>findFragmentById\<close> and \<open>findFragmentsBySource\<close> over the rows of the fragments
  table; the latter orders by position (the default) with a stable sort.
\<close>

definition findFragmentById ::
  "(string \<Rightarrow> real list option) \<Rightarrow> date \<Rightarrow> FragmentModel list \<Rightarrow> string \<Rightarrow> error + Fragment option" where
  "findFragmentById json now rows ident =
     (case find (\<lambda>m. fm_id m = ident) rows of
        None \<Rightarrow> Inr None
      | Some m \<Rightarrow> map_sum id Some (toDomain json now m))"

definition findFragmentsBySource ::
  "(string \<Rightarrow> real list option) \<Rightarrow> date \<Rightarrow> FragmentModel list \<Rightarrow> string \<Rightarrow> error + Fragment list" where
  "findFragmentsBySource json now rows sourceId =
     toDomainArray json now (sort_key fm_position (filter (\<lambda>m. fm_sourceId m = sourceId) rows))"

subsection \<open>Rows and the fragments loaded from them\<close>

text \<open>
  \<open>row_fields_ok\<close>: the checks of the Fragment constructor on the fields that
  \<open>toDomain\<close> copies from a row, the embedding apart (a source id and a content that
  are not blank, a content of at least ten characters, a position that is not
  negative).  \<open>row_mappable\<close> adds the check on a stored vector that parses: its length
  must be one of the entity's dimensions.
\<close>

definition row_fields_ok :: "FragmentModel \<Rightarrow> bool" where
  "row_fields_ok m =
     (trim (fm_sourceId m) \<noteq> [] \<and> trim (fm_content m) \<noteq> [] \<and>
      10 \<le> length (fm_content m) \<and> 0 \<le> fm_position m)"

definition row_mappable :: "(string \<Rightarrow> real list option) \<Rightarrow> FragmentModel \<Rightarrow> bool" where
  "row_mappable json m =
     (row_fields_ok m \<and>
      (case parseEmbedding json (fm_embedding m) of
         None \<Rightarrow> True
       | Some e \<Rightarrow> length e \<in> set VALID_DIMENSIONS))"

text \<open>
  \<open>loaded_null m\<close> is the Fragment that carries the fields of the row \<open>m\<close> and a null
  embedding; \<open>constructor_data f\<close> are the constructor arguments that would build a
  Fragment with the fields of \<open>f\<close>.  \<open>row_loaded m f\<close>: the Fragment \<open>f\<close> carries every
  field of the row \<open>m\<close>, and its embedding is null exactly when the row's column is.
\<close>

definition loaded_null :: "FragmentModel \<Rightarrow> Fragment" where
  "loaded_null m =
     \<lparr> f_id = Some (fm_id m), f_sourceId = fm_sourceId m, f_content = fm_content m,
       f_position = fm_position m, f_embedding = None, f_metadata = fm_metadata m,
       f_createdAt = fm_createdAt m, f_tokenCount = Some (fm_tokenCount m),
       f_updatedAt = Some (fm_updatedAt m) \<rparr>"

definition constructor_data :: "Fragment \<Rightarrow> FragmentData" where
  "constructor_data f =
     \<lparr> fd_sourceId = f_sourceId f, fd_content = f_content f, fd_position = f_position f,
       fd_embedding = f_embedding f, fd_metadata = f_metadata f \<rparr>"

definition row_loaded :: "FragmentModel \<Rightarrow> Fragment \<Rightarrow> bool" where
  "row_loaded m f =
     (f_id f = Some (fm_id m) \<and> f_sourceId f = fm_sourceId m \<and> f_content f = fm_content m \<and>
      f_position f = fm_position m \<and> f_metadata f = fm_metadata m \<and>
      f_createdAt f = fm_createdAt m \<and> f_tokenCount f = Some (fm_tokenCount m) \<and>
      f_updatedAt f = Some (fm_updatedAt m) \<and>
      (f_embedding f = None) = (fm_embedding m = None))"

section \<open>Vector similarity search (knowledge.repository.ts)\<close>

record KnowledgeSourceModel =
  ksm_id :: string
  ksm_title :: string
  ksm_sectorId :: string
  ksm_sourceType :: SourceType
  ksm_content :: string
  ksm_status :: string
  ksm_errorMessage :: "string option"
  ksm_metadata :: "SourceMetadata option"
  ksm_createdAt :: date
  ksm_updatedAt :: date
  ksm_deletedAt :: "date option"

definition DEFAULT_VECTOR_SEARCH_LIMIT :: nat where
  "DEFAULT_VECTOR_SEARCH_LIMIT = 5"

definition DEFAULT_SIMILARITY_THRESHOLD :: real where
  "DEFAULT_SIMILARITY_THRESHOLD = 0.7"

record VectorSearchRawResult =
  raw_id :: string
  raw_source_id :: string
  raw_content :: string
  raw_embedding :: "string option"
  raw_position :: int
  raw_token_count :: int
  raw_metadata :: "SourceMetadata option"
  raw_created_at :: date
  raw_updated_at :: date
  raw_similarity :: number

text \<open>
  The type guard \<open>isVectorSearchRawResult\<close>.  Every conjunct is a run-time type test
  of one column; the record's field types decide all of them.  The last one,
  \<^verbatim>\<open>typeof result.similarity === 'number'\<close>, holds of NaN as of any number.
\<close>

definition isVectorSearchRawResult :: "VectorSearchRawResult \<Rightarrow> bool" where
  "isVectorSearchRawResult r = (raw_embedding r = None \<or> raw_embedding r \<noteq> None)"

definition raw_row :: "FragmentModel \<Rightarrow> number \<Rightarrow> VectorSearchRawResult" where
  "raw_row f sim =
     \<lparr> raw_id = fm_id f, raw_source_id = fm_sourceId f, raw_content = fm_content f,
       raw_embedding = fm_embedding f, raw_position = fm_position f,
       raw_token_count = fm_tokenCount f, raw_metadata = fm_metadata f,
       raw_created_at = fm_createdAt f, raw_updated_at = fm_updatedAt f,
       raw_similarity = sim \<rparr>"

text \<open>
  The SQL text of \<open>vectorSearch\<close>, clause by clause.  The pgvector operator
  \<^verbatim>\<open><=>\<close> (cosine distance between the query vector and a stored vector) is the
  parameter \<open>cosdist\<close>; its value is NaN when one of the two vectors has norm zero.
  \<open>join_rows\<close> is the inner join on \<^verbatim>\<open>f.source_id = ks.id\<close>; \<open>where_clause\<close> the
  three conjuncts of WHERE, the third one PostgreSQL's comparison, which NaN passes
  against every number.  ORDER BY similarity DESC (\<open>order_by_similarity_desc\<close>) puts
  the rows whose similarity is NaN first, since PostgreSQL orders NaN above every
  number, and then the others by a stable sort on the negated similarity (SQL leaves
  the order of ties open, the model fixes one); LIMIT keeps a prefix.
\<close>

definition join_rows :: "FragmentModel list \<Rightarrow> KnowledgeSourceModel list \<Rightarrow> (FragmentModel \<times> KnowledgeSourceModel) list" where
  "join_rows fragments sources =
     concat (map (\<lambda>f. map (\<lambda>ks. (f, ks)) (filter (\<lambda>ks. fm_sourceId f = ksm_id ks) sources)) fragments)"

definition similarity_of :: "(real list \<Rightarrow> string \<Rightarrow> number) \<Rightarrow> real list \<Rightarrow> string \<Rightarrow> number" where
  "similarity_of cosdist embedding stored = minus_from 1 (cosdist embedding stored)"

definition where_clause ::
  "(real list \<Rightarrow> string \<Rightarrow> number) \<Rightarrow> real list \<Rightarrow> string \<Rightarrow> number \<Rightarrow> FragmentModel \<times> KnowledgeSourceModel \<Rightarrow> bool" where
  "where_clause cosdist embedding sectorId threshold p =
     (case p of (f, ks) \<Rightarrow>
        ksm_sectorId ks = sectorId \<and>
        (case fm_embedding f of
           None \<Rightarrow> False
         | Some stored \<Rightarrow> pg_ge (similarity_of cosdist embedding stored) threshold))"

text \<open>The select list; the similarity of a row whose embedding is NULL is NULL in SQL,
  and no such row passes WHERE.\<close>

definition select_row :: "(real list \<Rightarrow> string \<Rightarrow> number) \<Rightarrow> real list \<Rightarrow> FragmentModel \<times> KnowledgeSourceModel \<Rightarrow> VectorSearchRawResult" where
  "select_row cosdist embedding p =
     (case p of (f, ks) \<Rightarrow>
        raw_row f (case fm_embedding f of
                     None \<Rightarrow> NaN
                   | Some stored \<Rightarrow> similarity_of cosdist embedding stored))"

definition order_by_similarity_desc :: "VectorSearchRawResult list \<Rightarrow> VectorSearchRawResult list" where
  "order_by_similarity_desc rows =
     filter (\<lambda>r. is_NaN (raw_similarity r)) rows
     @ sort_key (\<lambda>r. - num_value (raw_similarity r))
         (filter (\<lambda>r. \<not> is_NaN (raw_similarity r)) rows)"

definition vector_query ::
  "(real list \<Rightarrow> string \<Rightarrow> number) \<Rightarrow> FragmentModel list \<Rightarrow> KnowledgeSourceModel list \<Rightarrow>
   real list \<Rightarrow> string \<Rightarrow> number \<Rightarrow> nat \<Rightarrow> VectorSearchRawResult list" where
  "vector_query cosdist fragments sources embedding sectorId threshold limit =
     take limit
       (order_by_similarity_desc
          (map (select_row cosdist embedding)
             (filter (where_clause cosdist embedding sectorId threshold)
                (join_rows fragments sources))))"

record FragmentWithSimilarity = Fragment +
  similarity :: number

definition raw_to_model :: "VectorSearchRawResult \<Rightarrow> FragmentModel" where
  "raw_to_model r =
     \<lparr> fm_id = raw_id r, fm_sourceId = raw_source_id r, fm_content = raw_content r,
       fm_embedding = raw_embedding r, fm_position = raw_position r,
       fm_tokenCount = raw_token_count r, fm_metadata = raw_metadata r,
       fm_createdAt = raw_created_at r, fm_updatedAt = raw_updated_at r \<rparr>"

definition map_result :: "(string \<Rightarrow> real list option) \<Rightarrow> date \<Rightarrow> VectorSearchRawResult \<Rightarrow> error + FragmentWithSimilarity" where
  "map_result json now rawResult =
     (case toDomain json now (raw_to_model rawResult) of
        Inl e \<Rightarrow> Inl e
      | Inr fragment \<Rightarrow> Inr (Fragment.extend fragment
                               (FragmentWithSimilarity.fields (raw_similarity rawResult))))"

fun map_results :: "(string \<Rightarrow> real list option) \<Rightarrow> date \<Rightarrow> VectorSearchRawResult list \<Rightarrow> error + FragmentWithSimilarity list" where
  "map_results json now [] = Inr []"
| "map_results json now (r # rs) =
     (case map_result json now r of
        Inl e \<Rightarrow> Inl e
      | Inr w \<Rightarrow> (case map_results json now rs of
                    Inl e \<Rightarrow> Inl e
                  | Inr ws \<Rightarrow> Inr (w # ws)))"

text \<open>
  \<open>vectorSearch\<close>, with its two defaulted parameters as options.  \<open>limit\<close> is a
  natural number: the source passes it to LIMIT unchecked.
\<close>

definition vectorSearch ::
  "(real list \<Rightarrow> string \<Rightarrow> number) \<Rightarrow> (string \<Rightarrow> real list option) \<Rightarrow> date \<Rightarrow>
   FragmentModel list \<Rightarrow> KnowledgeSourceModel list \<Rightarrow>
   real list \<Rightarrow> string \<Rightarrow> nat option \<Rightarrow> number option \<Rightarrow> error + FragmentWithSimilarity list" where
  "vectorSearch cosdist json now fragments sources embedding sectorId limit similarityThreshold =
     (let lmt = (case limit of None \<Rightarrow> DEFAULT_VECTOR_SEARCH_LIMIT | Some l \<Rightarrow> l);
          thr = (case similarityThreshold of None \<Rightarrow> Num DEFAULT_SIMILARITY_THRESHOLD | Some t \<Rightarrow> t);
          queryResults = vector_query cosdist fragments sources embedding sectorId thr lmt;
          validatedResults = filter isVectorSearchRawResult queryResults
      in map_results json now validatedResults)"



section \<open>RAG query flow (rag-query.flow.ts)\<close>

definition DEFAULT_MAX_RESULTS :: int where
  "DEFAULT_MAX_RESULTS = 5"

definition MAX_RESULTS_LIMIT :: int where
  "MAX_RESULTS_LIMIT = 10"

definition DEFAULT_MIN_SIMILARITY :: real where
  "DEFAULT_MIN_SIMILARITY = 0.7"

record RagQueryInput =
  rq_query :: string
  rq_sectorId :: string
  rq_conversationId :: "string option"
  rq_maxResults :: "int option"
  rq_minSimilarity :: "real option"

record ValidatedInput =
  vi_query :: string
  vi_sectorId :: string
  vi_conversationId :: "string option"
  vi_maxResults :: nat
  vi_minSimilarity :: real

text \<open>
  \<open>ragQueryInputSchema.parse\<close>: the zod checks and defaults, in the schema's order.
  The schema gives a message for an empty query and an empty sector; for a number out
  of range the message is zod's own and is represented by the name of the field.
  \<^verbatim>\<open>z.number()\<close> rejects NaN, so a validated \<open>minSimilarity\<close> is a number.
\<close>

definition ragQueryInputSchema_parse :: "RagQueryInput \<Rightarrow> error + ValidatedInput" where
  "ragQueryInputSchema_parse i =
     (let maxResults = (case rq_maxResults i of None \<Rightarrow> DEFAULT_MAX_RESULTS | Some n \<Rightarrow> n);
          minSimilarity = (case rq_minSimilarity i of None \<Rightarrow> DEFAULT_MIN_SIMILARITY | Some m \<Rightarrow> m)
      in if length (rq_query i) < 1 then Inl (Error ''Query is required'')
         else if length (rq_sectorId i) < 1 then Inl (Error ''Sector ID is required'')
         else if maxResults < 1 \<or> maxResults > MAX_RESULTS_LIMIT
           then Inl (Error ''maxResults out of range'')
         else if minSimilarity < 0 \<or> minSimilarity > 1
           then Inl (Error ''minSimilarity out of range'')
         else Inr \<lparr> vi_query = rq_query i, vi_sectorId = rq_sectorId i,
                    vi_conversationId = rq_conversationId i,
                    vi_maxResults = nat maxResults, vi_minSimilarity = minSimilarity \<rparr>)"

record FragmentResult =
  fr_id :: string
  fr_content :: string
  fr_similarity :: number
  fr_sourceId :: string
  fr_metadata :: "SourceMetadata option"

record RagMetadata =
  rm_model :: string
  rm_temperature :: real
  rm_fragmentsRetrieved :: nat
  rm_fragmentsUsed :: nat

record RagQueryOutput =
  ro_response :: string
  ro_sources :: "FragmentResult list"
  ro_conversationId :: "string option"
  ro_timestamp :: date
  ro_metadata :: "RagMetadata option"

definition LLM_MODEL :: string where
  "LLM_MODEL = ''googleai/gemini-1.5-pro''"

definition EMBEDDING_MODEL :: string where
  "EMBEDDING_MODEL = ''googleai/gemini-embedding-001''"

definition RAG_TEMPERATURE :: real where
  "RAG_TEMPERATURE = 0.3"

definition nl :: string where
  "nl = [CHR 0x0A]"

fun join :: "string \<Rightarrow> string list \<Rightarrow> string" where
  "join sep [] = []"
| "join sep [x] = x"
| "join sep (x # y # ys) = x @ sep @ join sep (y # ys)"

fun show_nat :: "nat \<Rightarrow> string" where
  "show_nat n =
     (if n < 10 then [char_of (48 + n)]
      else show_nat (n div 10) @ [char_of (48 + n mod 10)])"

declare show_nat.simps [simp del]

definition numbered :: "FragmentResult list \<Rightarrow> string list" where
  "numbered fragments =
     map (\<lambda>(index, f). ''['' @ show_nat (index + 1) @ ''] '' @ fr_content f)
       (zip [0 ..< length fragments] fragments)"

definition buildPrompt :: "string \<Rightarrow> FragmentResult list \<Rightarrow> string" where
  "buildPrompt query fragments =
     (let context = (if length fragments > 0 then join (nl @ nl) (numbered fragments)
                     else ''No relevant documentation found.'')
      in ''You are an onboarding assistant for the company. Your role is to help employees understand company policies, procedures, and guidelines.''
         @ nl @ nl @ ''IMPORTANT INSTRUCTIONS:''
         @ nl @ ''- Answer ONLY based on the provided documentation context below''
         @ nl @ ''- If the context doesn'' @ [CHR 0x27] @ ''t contain the answer, say: '' @ [CHR 0x22]
              @ ''I don'' @ [CHR 0x27] @ ''t have information about that in the current documentation.''
              @ [CHR 0x22]
         @ nl @ ''- Be concise and clear in your response''
         @ nl @ ''- Reference the documentation sources when applicable''
         @ nl @ ''- Use a friendly, professional tone''
         @ nl @ nl @ ''DOCUMENTATION CONTEXT:'' @ nl @ context
         @ nl @ nl @ ''USER QUESTION:'' @ nl @ query
         @ nl @ nl @ ''ANSWER:'')"

definition FALLBACK_RESPONSE :: string where
  "FALLBACK_RESPONSE = ''I don'' @ [CHR 0x27] @ ''t have information about that in the current documentation. Please contact HR or your manager for more specific guidance.''"

text \<open>
  The three collaborators of \<open>executeQuery\<close> are parameters: \<open>embedF\<close> is
  \<^verbatim>\<open>ai.embed\<close> with the configured embedder, \<open>vectorSearch\<close> the injected
  \<open>VectorSearchFn\<close>, \<open>generate\<close> is \<^verbatim>\<open>ai.generate\<close> with the model and the
  low-temperature configuration.  Every call made is appended to a log.
\<close>

datatype EmbedResult = NotAnArray | EmbedArray "real list option list"

datatype RagCall =
    EmbedCall string
  | VectorSearchCall "real list" string nat
  | GenerateCall string

definition executeQuery ::
  "(string \<Rightarrow> error + EmbedResult) \<Rightarrow>
   (real list \<Rightarrow> string \<Rightarrow> nat \<Rightarrow> error + FragmentResult list) \<Rightarrow>
   (string \<Rightarrow> error + string) \<Rightarrow> date \<Rightarrow> RagQueryInput \<Rightarrow>
   (error + RagQueryOutput) \<times> RagCall list" where
  "executeQuery embedF vectorSearchF generate now input =
     (case ragQueryInputSchema_parse input of
        Inl e \<Rightarrow> (Inl e, [])
      | Inr validatedInput \<Rightarrow>
          (let log1 = [EmbedCall (vi_query validatedInput)]
           in case embedF (vi_query validatedInput) of
                Inl e \<Rightarrow> (Inl e, log1)
              | Inr NotAnArray \<Rightarrow> (Inl (Error ''Failed to generate query embedding''), log1)
              | Inr (EmbedArray []) \<Rightarrow> (Inl (Error ''Failed to generate query embedding''), log1)
              | Inr (EmbedArray (None # _)) \<Rightarrow> (Inl (Error ''Invalid embedding format received''), log1)
              | Inr (EmbedArray (Some queryEmbedding # _)) \<Rightarrow>
                  (let log2 = log1 @ [VectorSearchCall queryEmbedding (vi_sectorId validatedInput)
                                        (vi_maxResults validatedInput)]
                   in case vectorSearchF queryEmbedding (vi_sectorId validatedInput)
                             (vi_maxResults validatedInput) of
                        Inl e \<Rightarrow> (Inl e, log2)
                      | Inr allFragments \<Rightarrow>
                          (let relevantFragments =
                                 filter (\<lambda>f. js_ge (fr_similarity f)
                                                 (Num (vi_minSimilarity validatedInput)))
                                   allFragments
                           in if length relevantFragments = 0
                              then (Inr \<lparr> ro_response = FALLBACK_RESPONSE, ro_sources = [],
                                          ro_conversationId = vi_conversationId validatedInput,
                                          ro_timestamp = now,
                                          ro_metadata = Some \<lparr> rm_model = LLM_MODEL,
                                            rm_temperature = RAG_TEMPERATURE,
                                            rm_fragmentsRetrieved = length allFragments,
                                            rm_fragmentsUsed = 0 \<rparr> \<rparr>, log2)
                              else
                                (let prompt = buildPrompt (vi_query validatedInput) relevantFragments;
                                     log3 = log2 @ [GenerateCall prompt]
                                 in case generate prompt of
                                      Inl e \<Rightarrow> (Inl e, log3)
                                    | Inr text \<Rightarrow>
                                        (Inr \<lparr> ro_response = text, ro_sources = relevantFragments,
                                               ro_conversationId = vi_conversationId validatedInput,
                                               ro_timestamp = now,
                                               ro_metadata = Some \<lparr> rm_model = LLM_MODEL,
                                                 rm_temperature = RAG_TEMPERATURE,
                                                 rm_fragmentsRetrieved = length allFragments,
                                                 rm_fragmentsUsed = length relevantFragments \<rparr> \<rparr>,
                                         log3))))))"

section \<open>Wiring of the flow to the repository (interaction.module.ts)\<close>

text \<open>
  The objects that \<open>vectorSearch\<close> returns are read by the flow as \<open>FragmentResult\<close>:
  the fields \<open>id\<close>, \<open>content\<close>, \<open>similarity\<close>, \<open>sourceId\<close> and \<open>metadata\<close>.
\<close>

definition fragment_result_of :: "FragmentWithSimilarity \<Rightarrow> FragmentResult" where
  "fragment_result_of w =
     \<lparr> fr_id = (case f_id w of None \<Rightarrow> ''undefined'' | Some i \<Rightarrow> i),
       fr_content = f_content w, fr_similarity = similarity w,
       fr_sourceId = f_sourceId w, fr_metadata = f_metadata w \<rparr>"

text \<open>
  \<open>vectorSearchFn\<close> of the module's factory: it passes three arguments, so the
  repository's fourth parameter takes its default.
\<close>

definition vectorSearchFn ::
  "(real list \<Rightarrow> string \<Rightarrow> number) \<Rightarrow> (string \<Rightarrow> real list option) \<Rightarrow> date \<Rightarrow>
   FragmentModel list \<Rightarrow> KnowledgeSourceModel list \<Rightarrow>
   real list \<Rightarrow> string \<Rightarrow> nat \<Rightarrow> error + FragmentResult list" where
  "vectorSearchFn cosdist json now fragments sources embedding sectorId limit =
     map_sum id (map fragment_result_of)
       (vectorSearch cosdist json now fragments sources embedding sectorId (Some limit) None)"

section \<open>Messages and conversations (message.entity.ts, conversation.entity.ts)\<close>

datatype MessageRole = user | assistant | system

record Message =
  m_id :: string
  m_conversationId :: string
  m_role :: MessageRole
  m_content :: string
  m_metadata :: "SourceMetadata option"
  m_createdAt :: date

record MessageProps =
  mp_id :: "string option"
  mp_conversationId :: string
  mp_role :: MessageRole
  mp_content :: string
  mp_metadata :: "SourceMetadata option"
  mp_createdAt :: "date option"

text \<open>
  \<^verbatim>\<open>randomUUID()\<close> is the argument \<open>uuid\<close> of the constructors.  A role is always
  present in the model, so the test \<^verbatim>\<open>!props.role\<close> never fires.
\<close>

definition Message_new :: "string \<Rightarrow> date \<Rightarrow> MessageProps \<Rightarrow> error + Message" where
  "Message_new uuid now props =
     (if mp_conversationId props = [] \<or> trim (mp_conversationId props) = []
        then Inl (Error ''Conversation ID is required'')
      else if mp_content props = [] \<or> trim (mp_content props) = []
        then Inl (Error ''Message content is required'')
      else Inr \<lparr> m_id = (case mp_id props of None \<Rightarrow> uuid | Some i \<Rightarrow> i),
                 m_conversationId = mp_conversationId props, m_role = mp_role props,
                 m_content = trim (mp_content props), m_metadata = mp_metadata props,
                 m_createdAt = (case mp_createdAt props of None \<Rightarrow> now | Some t \<Rightarrow> t) \<rparr>)"

definition role_name :: "MessageRole \<Rightarrow> string" where
  "role_name r = (case r of user \<Rightarrow> ''user'' | assistant \<Rightarrow> ''assistant'' | system \<Rightarrow> ''system'')"

text \<open>\<^verbatim>\<open>toUpperCase\<close> on one character, for the ASCII letters.\<close>

definition toUpperCase :: "char \<Rightarrow> char" where
  "toUpperCase c =
     (case map_of (zip ''abcdefghijklmnopqrstuvwxyz'' ''ABCDEFGHIJKLMNOPQRSTUVWXYZ'') c of
        None \<Rightarrow> c
      | Some u \<Rightarrow> u)"

definition formatForPrompt :: "Message \<Rightarrow> string" where
  "formatForPrompt m =
     (let roleLabel = map toUpperCase (take 1 (role_name (m_role m))) @ drop 1 (role_name (m_role m))
      in roleLabel @ '': '' @ m_content m)"

record Conversation =
  c_id :: string
  c_userId :: string
  c_sectorId :: string
  c_messages :: "Message list"
  c_createdAt :: date
  c_updatedAt :: date

record ConversationProps =
  cp_id :: "string option"
  cp_userId :: string
  cp_sectorId :: string
  cp_messages :: "Message list option"
  cp_createdAt :: "date option"
  cp_updatedAt :: "date option"

definition Conversation_new :: "string \<Rightarrow> date \<Rightarrow> ConversationProps \<Rightarrow> error + Conversation" where
  "Conversation_new uuid now props =
     (if cp_userId props = [] \<or> trim (cp_userId props) = [] then Inl (Error ''User ID is required'')
      else if cp_sectorId props = [] \<or> trim (cp_sectorId props) = []
        then Inl (Error ''Sector ID is required'')
      else Inr \<lparr> c_id = (case cp_id props of None \<Rightarrow> uuid | Some i \<Rightarrow> i),
                 c_userId = cp_userId props, c_sectorId = cp_sectorId props,
                 c_messages = (case cp_messages props of None \<Rightarrow> [] | Some ms \<Rightarrow> ms),
                 c_createdAt = (case cp_createdAt props of None \<Rightarrow> now | Some t \<Rightarrow> t),
                 c_updatedAt = (case cp_updatedAt props of None \<Rightarrow> now | Some t \<Rightarrow> t) \<rparr>)"

definition addMessage :: "date \<Rightarrow> Message \<Rightarrow> Conversation \<Rightarrow> error + Conversation" where
  "addMessage now message c =
     (if m_conversationId message \<noteq> c_id c
      then Inl (Error ''Message does not belong to this conversation'')
      else Inr (c\<lparr> c_messages := c_messages c @ [message], c_updatedAt := now \<rparr>))"

definition hasMessages :: "Conversation \<Rightarrow> bool" where
  "hasMessages c = (length (c_messages c) > 0)"

text \<open>\<^verbatim>\<open>xs.slice(-n)\<close>: the last \<open>n\<close> elements, all of them when there are fewer.\<close>

definition slice_last :: "nat \<Rightarrow> 'a list \<Rightarrow> 'a list" where
  "slice_last n xs = drop (length xs - n) xs"

text \<open>\<open>getContextForPrompt\<close>: an absent or zero \<open>maxMessages\<close> is falsy and keeps all.\<close>

definition getContextForPrompt :: "nat option \<Rightarrow> Conversation \<Rightarrow> string" where
  "getContextForPrompt maxMessages c =
     (let messagesToInclude =
            (case maxMessages of
               None \<Rightarrow> c_messages c
             | Some n \<Rightarrow> if n = 0 then c_messages c else slice_last n (c_messages c))
      in join nl (map formatForPrompt messagesToInclude))"

section \<open>Query assistant use case (query-assistant.use-case.ts)\<close>

definition DEFAULT_CONTEXT_MESSAGE_LIMIT :: nat where
  "DEFAULT_CONTEXT_MESSAGE_LIMIT = 10"

record QueryAssistantInput =
  qi_userId :: string
  qi_sectorId :: string
  qi_query :: string
  qi_conversationId :: "string option"
  qi_maxResults :: "int option"
  qi_minSimilarity :: "real option"

record QueryAssistantOutput =
  qo_response :: string
  qo_conversationId :: string
  qo_sources :: "FragmentResult list"
  qo_timestamp :: date

definition validateInput :: "QueryAssistantInput \<Rightarrow> error + unit" where
  "validateInput input =
     (if qi_userId input = [] \<or> trim (qi_userId input) = [] then Inl (Error ''User ID is required'')
      else if qi_sectorId input = [] \<or> trim (qi_sectorId input) = []
        then Inl (Error ''Sector ID is required'')
      else if qi_query input = [] \<or> trim (qi_query input) = [] then Inl (Error ''Query is required'')
      else Inr ())"

text \<open>
  The conversation repository is known by its interface only; its two lookups are the
  parameters \<open>findById\<close> and \<open>findByUserAndSector\<close>, and the conversations handed to
  \<open>save\<close> are returned in the trace.
\<close>

definition getOrCreateConversation ::
  "(string \<Rightarrow> Conversation option) \<Rightarrow> (string \<Rightarrow> string \<Rightarrow> Conversation option) \<Rightarrow>
   string \<Rightarrow> date \<Rightarrow> QueryAssistantInput \<Rightarrow> error + Conversation" where
  "getOrCreateConversation findById findByUserAndSector uuid now input =
     (case qi_conversationId input of
        Some cid \<Rightarrow>
          if cid \<noteq> [] then
            (case findById cid of
               None \<Rightarrow> Inl (Error ''Conversation not found'')
             | Some conversation \<Rightarrow> Inr conversation)
          else
            (case findByUserAndSector (qi_userId input) (qi_sectorId input) of
               Some existingConversation \<Rightarrow> Inr existingConversation
             | None \<Rightarrow> Conversation_new uuid now
                         \<lparr> cp_id = None, cp_userId = qi_userId input, cp_sectorId = qi_sectorId input,
                           cp_messages = None, cp_createdAt = None, cp_updatedAt = None \<rparr>)
      | None \<Rightarrow>
          (case findByUserAndSector (qi_userId input) (qi_sectorId input) of
             Some existingConversation \<Rightarrow> Inr existingConversation
           | None \<Rightarrow> Conversation_new uuid now
                       \<lparr> cp_id = None, cp_userId = qi_userId input, cp_sectorId = qi_sectorId input,
                         cp_messages = None, cp_createdAt = None, cp_updatedAt = None \<rparr>))"

definition buildContextualQuery :: "Conversation \<Rightarrow> string \<Rightarrow> string" where
  "buildContextualQuery conversation currentQuery =
     (if \<not> hasMessages conversation then currentQuery
      else (let context = getContextForPrompt (Some DEFAULT_CONTEXT_MESSAGE_LIMIT) conversation
            in if context \<noteq> [] then context @ nl @ ''User: '' @ currentQuery
               else currentQuery))"

record Trace =
  tr_ragInputs :: "RagQueryInput list"
  tr_ragCalls :: "RagCall list"
  tr_saved :: "Conversation list"

definition sourceFragments_metadata :: "FragmentResult list \<Rightarrow> SourceMetadata" where
  "sourceFragments_metadata sources =
     [''sourceFragments'' \<mapsto> MArray (map (\<lambda>s. MString (fr_id s)) sources),
      ''sourcesCount'' \<mapsto> MNumber (int (length sources))]"

text \<open>
  \<open>QueryAssistantUseCase.execute\<close>.  \<open>ragQueryFlow\<close> is the injected flow; it returns
  its result together with the calls it made.  \<open>uuids\<close> supplies the identifiers of
  the conversation, the user message and the assistant message.  The run-time shape
  checks of \<open>safeExecuteRagQuery\<close> hold of every value of type \<open>RagQueryOutput\<close>
  and its conversions are identities on it, so the flow's result is used as it is.
\<close>

definition execute ::
  "(string \<Rightarrow> Conversation option) \<Rightarrow> (string \<Rightarrow> string \<Rightarrow> Conversation option) \<Rightarrow>
   (RagQueryInput \<Rightarrow> (error + RagQueryOutput) \<times> RagCall list) \<Rightarrow>
   (nat \<Rightarrow> string) \<Rightarrow> date \<Rightarrow> QueryAssistantInput \<Rightarrow> (error + QueryAssistantOutput) \<times> Trace" where
  "execute findById findByUserAndSector ragQueryFlow uuids now input =
     (let t0 = \<lparr> tr_ragInputs = [], tr_ragCalls = [], tr_saved = [] \<rparr>
      in case validateInput input of
           Inl e \<Rightarrow> (Inl e, t0)
         | Inr _ \<Rightarrow>
      (case getOrCreateConversation findById findByUserAndSector (uuids 0) now input of
           Inl e \<Rightarrow> (Inl e, t0)
         | Inr conversation0 \<Rightarrow>
      (case Message_new (uuids 1) now
              \<lparr> mp_id = None, mp_conversationId = c_id conversation0, mp_role = user,
                mp_content = qi_query input, mp_metadata = None, mp_createdAt = None \<rparr> of
           Inl e \<Rightarrow> (Inl e, t0)
         | Inr userMessage \<Rightarrow>
      (case addMessage now userMessage conversation0 of
           Inl e \<Rightarrow> (Inl e, t0)
         | Inr conversation1 \<Rightarrow>
      (let contextualQuery = buildContextualQuery conversation1 (qi_query input);
           ragQueryInput = \<lparr> rq_query = contextualQuery, rq_sectorId = qi_sectorId input,
                             rq_conversationId = Some (c_id conversation1),
                             rq_maxResults = qi_maxResults input,
                             rq_minSimilarity = qi_minSimilarity input \<rparr>;
           t1 = t0\<lparr> tr_ragInputs := [ragQueryInput],
                    tr_ragCalls := snd (ragQueryFlow ragQueryInput) \<rparr>
       in case fst (ragQueryFlow ragQueryInput) of
            Inl e \<Rightarrow> (Inl e, t1)
          | Inr ragResult \<Rightarrow>
      (case Message_new (uuids 2) now
              \<lparr> mp_id = None, mp_conversationId = c_id conversation1, mp_role = assistant,
                mp_content = ro_response ragResult,
                mp_metadata = Some (sourceFragments_metadata (ro_sources ragResult)),
                mp_createdAt = None \<rparr> of
           Inl e \<Rightarrow> (Inl e, t1)
         | Inr assistantMessage \<Rightarrow>
      (case addMessage now assistantMessage conversation1 of
           Inl e \<Rightarrow> (Inl e, t1)
         | Inr conversation2 \<Rightarrow>
             (Inr \<lparr> qo_response = ro_response ragResult, qo_conversationId = c_id conversation2,
                    qo_sources = ro_sources ragResult, qo_timestamp = ro_timestamp ragResult \<rparr>,
              t1\<lparr> tr_saved := [conversation2] \<rparr>))))))))"

section \<open>Embedding service (embedding.service.ts)\<close>

datatype EmbeddingTaskType =
  RETRIEVAL_DOCUMENT | RETRIEVAL_QUERY | SEMANTIC_SIMILARITY | CLASSIFICATION | CLUSTERING

record EmbedRequest =
  er_embedder :: string
  er_content :: string
  er_outputDimensionality :: int
  er_taskType :: "EmbeddingTaskType option"

definition MAX_TOKEN_LIMIT :: nat where
  "MAX_TOKEN_LIMIT = 2048"

definition CHARS_PER_TOKEN_ESTIMATE :: nat where
  "CHARS_PER_TOKEN_ESTIMATE = 4"

definition truncateText :: "string \<Rightarrow> string" where
  "truncateText text =
     (let maxChars = MAX_TOKEN_LIMIT * CHARS_PER_TOKEN_ESTIMATE
      in if length text \<le> maxChars then text else take maxChars text)"

text \<open>\<open>EmbeddingService.validateInput\<close>; a \<open>string\<close> is neither null nor a non-string.\<close>

definition es_validateInput :: "string \<Rightarrow> error + unit" where
  "es_validateInput text = (if length (trim text) = 0 then Inl (Error ''Text cannot be empty'') else Inr ())"

definition embed_failure :: "error \<Rightarrow> error" where
  "embed_failure e = (case e of Error msg \<Rightarrow> Error (''Failed to generate embedding: '' @ msg))"

definition embed_request :: "EmbeddingConfig \<Rightarrow> EmbeddingTaskType option \<Rightarrow> string \<Rightarrow> EmbedRequest" where
  "embed_request c taskType text =
     \<lparr> er_embedder = cfg_model c, er_content = truncateText text,
       er_outputDimensionality = cfg_dimensions c, er_taskType = taskType \<rparr>"

text \<open>The unwrapping of a provider response: its first element's vector, if there is one.\<close>

definition first_vector :: "error + EmbedResult \<Rightarrow> error + real list" where
  "first_vector r =
     (case r of
        Inl e \<Rightarrow> Inl e
      | Inr (EmbedArray (Some v # _)) \<Rightarrow> Inr v
      | Inr _ \<Rightarrow> Inl (Error ''Invalid embedding response format''))"

text \<open>
  \<open>generateEmbedding\<close>.  \<open>provider\<close> is \<^verbatim>\<open>ai.embed\<close>; the second component of the
  result lists the provider calls issued.  A missing API key makes \<open>getAI\<close> throw
  inside the try block, before any call.
\<close>

definition generateEmbedding ::
  "(EmbedRequest \<Rightarrow> error + EmbedResult) \<Rightarrow> EmbeddingConfig \<Rightarrow> string \<Rightarrow>
   EmbeddingTaskType option \<Rightarrow> (error + real list) \<times> EmbedRequest list" where
  "generateEmbedding provider c text taskType =
     (case es_validateInput text of
        Inl e \<Rightarrow> (Inl e, [])
      | Inr _ \<Rightarrow>
          if cfg_apiKey c = None \<or> cfg_apiKey c = Some []
          then (Inl (embed_failure (Error ''GOOGLE_API_KEY environment variable is required'')), [])
          else (case first_vector (provider (embed_request c taskType text)) of
                  Inl e \<Rightarrow> (Inl (embed_failure e), [embed_request c taskType text])
                | Inr v \<Rightarrow> (Inr v, [embed_request c taskType text])))"

text \<open>
  One window: \<^verbatim>\<open>Promise.all(batch.map(...))\<close>.  Every call of the window is issued;
  the window fails with the first failure in input order.
\<close>

fun run_batch ::
  "(EmbedRequest \<Rightarrow> error + EmbedResult) \<Rightarrow> EmbeddingConfig \<Rightarrow> EmbeddingTaskType option \<Rightarrow>
   string list \<Rightarrow> (error + real list list) \<times> EmbedRequest list" where
  "run_batch provider c taskType [] = (Inr [], [])"
| "run_batch provider c taskType (t # ts) =
     (case generateEmbedding provider c t taskType of
        (r, l) \<Rightarrow>
          (case run_batch provider c taskType ts of
             (rs, ls) \<Rightarrow>
               ((case r of
                   Inl e \<Rightarrow> Inl e
                 | Inr v \<Rightarrow> (case rs of Inl e \<Rightarrow> Inl e | Inr vs \<Rightarrow> Inr (v # vs))),
                l @ ls)))"

text \<open>
  The loop \<^verbatim>\<open>for (let i = 0; i < texts.length; i += batchSize)\<close>.  It does not
  terminate for a batch size of zero, so it is a partial function: \<open>None\<close> is
  non-termination.
\<close>

partial_function (option) embed_loop ::
  "(EmbedRequest \<Rightarrow> error + EmbedResult) \<Rightarrow> EmbeddingConfig \<Rightarrow> EmbeddingTaskType option \<Rightarrow>
   string list \<Rightarrow> nat \<Rightarrow> real list list \<Rightarrow> EmbedRequest list \<Rightarrow>
   ((error + real list list) \<times> EmbedRequest list) option" where
  "embed_loop provider c taskType texts i embeddings calls =
     (if i < length texts then
        (case run_batch provider c taskType (take (nat (cfg_batchSize c)) (drop i texts)) of
           (Inl e, l) \<Rightarrow> Some (Inl e, calls @ l)
         | (Inr batchEmbeddings, l) \<Rightarrow>
             embed_loop provider c taskType texts (i + nat (cfg_batchSize c))
               (embeddings @ batchEmbeddings) (calls @ l))
      else Some (Inr embeddings, calls))"

fun validate_all :: "string list \<Rightarrow> error + unit" where
  "validate_all [] = Inr ()"
| "validate_all (t # ts) = (case es_validateInput t of Inl e \<Rightarrow> Inl e | Inr _ \<Rightarrow> validate_all ts)"

definition generateEmbeddings ::
  "(EmbedRequest \<Rightarrow> error + EmbedResult) \<Rightarrow> EmbeddingConfig \<Rightarrow> string list \<Rightarrow>
   EmbeddingTaskType option \<Rightarrow> ((error + real list list) \<times> EmbedRequest list) option" where
  "generateEmbeddings provider c texts taskType =
     (if length texts = 0 then Some (Inr [], [])
      else (case validate_all texts of
              Inl e \<Rightarrow> Some (Inl e, [])
            | Inr _ \<Rightarrow> embed_loop provider c taskType texts 0 [] []))"

definition generateDocumentEmbeddings ::
  "(EmbedRequest \<Rightarrow> error + EmbedResult) \<Rightarrow> EmbeddingConfig \<Rightarrow> string list \<Rightarrow>
   ((error + real list list) \<times> EmbedRequest list) option" where
  "generateDocumentEmbeddings provider c texts =
     generateEmbeddings provider c texts (Some RETRIEVAL_DOCUMENT)"

section \<open>Source and fragment persistence (mappers and repository)\<close>

text \<open>
  \<open>KnowledgeSourceMapper.toModel\<close>.  The identifier is the entity's own when it has a
  non-empty one, and otherwise the one the store generates, passed as \<open>generated\<close>.
  The error message of the model is always set to null.
\<close>

definition ks_toModel :: "string \<Rightarrow> KnowledgeSource \<Rightarrow> KnowledgeSourceModel" where
  "ks_toModel generated entity =
     \<lparr> ksm_id = (case ks_id entity of None \<Rightarrow> generated
                                      | Some i \<Rightarrow> if i = [] then generated else i),
       ksm_title = ks_title entity, ksm_sectorId = ks_sectorId entity,
       ksm_sourceType = ks_sourceType entity, ksm_content = ks_content entity,
       ksm_status = ks_status entity, ksm_errorMessage = None,
       ksm_metadata = ks_metadata entity, ksm_createdAt = ks_createdAt entity,
       ksm_updatedAt = ks_updatedAt entity, ksm_deletedAt = ks_deletedAt entity \<rparr>"

definition ks_toDomain :: "date \<Rightarrow> KnowledgeSourceModel \<Rightarrow> error + KnowledgeSource" where
  "ks_toDomain now model =
     (case KnowledgeSource_new now
             \<lparr> d_title = ksm_title model, d_sectorId = ksm_sectorId model,
               d_sourceType = ksm_sourceType model, d_content = ksm_content model,
               d_metadata = ksm_metadata model \<rparr> of
        Inl e \<Rightarrow> Inl e
      | Inr source \<Rightarrow> Inr (source\<lparr> ks_id := Some (ksm_id model), ks_status := ksm_status model,
                                    ks_createdAt := ksm_createdAt model,
                                    ks_updatedAt := ksm_updatedAt model,
                                    ks_deletedAt := ksm_deletedAt model \<rparr>))"

record Db =
  db_sources :: "KnowledgeSourceModel list"
  db_fragments :: "FragmentModel list"

text \<open>\<open>saveSource\<close>: the row with the model's identifier is replaced or added.\<close>

definition saveSource :: "string \<Rightarrow> date \<Rightarrow> Db \<Rightarrow> KnowledgeSource \<Rightarrow> (error + KnowledgeSource) \<times> Db" where
  "saveSource generated now db source =
     (let model = ks_toModel generated source;
          db1 = db\<lparr> db_sources := filter (\<lambda>m. ksm_id m \<noteq> ksm_id model) (db_sources db) @ [model] \<rparr>
      in (ks_toDomain now model, db1))"

text \<open>
  \<^verbatim>\<open>content.split(/\s+/)\<close>: the pieces between maximal runs of white space; a
  leading or trailing run yields an empty first or last piece.
\<close>

function split_ws :: "string \<Rightarrow> string list" where
  "split_ws s =
     (let piece = takeWhile (\<lambda>c. \<not> is_ws c) s; rest = dropWhile (\<lambda>c. \<not> is_ws c) s
      in if rest = [] then [piece] else piece # split_ws (dropWhile is_ws rest))"
  by pat_completeness auto
termination
proof (relation "measure length")
  show "wf (measure length)" by simp
next
  fix s piece rest :: string
  assume r: "rest = dropWhile (\<lambda>c. \<not> is_ws c) s" and ne: "rest \<noteq> []"
  then obtain c cs where c: "rest = c # cs" "is_ws c"
    by (metis (mono_tags, lifting) hd_dropWhile list.exhaust_sel)
  have "length (dropWhile is_ws rest) \<le> length cs"
    using c by (simp add: length_dropWhile_le)
  moreover have "length rest \<le> length s" using r by (simp add: length_dropWhile_le)
  ultimately show "(dropWhile is_ws rest, s) \<in> measure length" using c by simp
qed

declare split_ws.simps [simp del]

definition WORDS_PER_TOKEN_RATIO :: real where
  "WORDS_PER_TOKEN_RATIO = 0.75"

definition fragment_toModel ::
  "(real list \<Rightarrow> string) \<Rightarrow> string \<Rightarrow> date \<Rightarrow> Fragment \<Rightarrow> FragmentModel" where
  "fragment_toModel stringify generated now entity =
     \<lparr> fm_id = (case f_id entity of None \<Rightarrow> generated
                                    | Some i \<Rightarrow> if i = [] then generated else i),
       fm_sourceId = f_sourceId entity, fm_content = f_content entity,
       fm_embedding = map_option stringify (f_embedding entity),
       fm_position = f_position entity,
       fm_tokenCount =
         (case f_tokenCount entity of
            Some n \<Rightarrow> n
          | None \<Rightarrow> \<lceil>real (length (split_ws (f_content entity))) / WORDS_PER_TOKEN_RATIO\<rceil>),
       fm_metadata = f_metadata entity, fm_createdAt = f_createdAt entity,
       fm_updatedAt = (case f_updatedAt entity of None \<Rightarrow> now | Some t \<Rightarrow> t) \<rparr>"

definition saveFragments ::
  "(real list \<Rightarrow> string) \<Rightarrow> (string \<Rightarrow> real list option) \<Rightarrow> (nat \<Rightarrow> string) \<Rightarrow> date \<Rightarrow>
   Db \<Rightarrow> Fragment list \<Rightarrow> (error + Fragment list) \<times> Db" where
  "saveFragments stringify json fragment_ids now db fragments =
     (let models = map (\<lambda>(i, f). fragment_toModel stringify (fragment_ids i) now f)
                     (zip [0 ..< length fragments] fragments);
          db1 = db\<lparr> db_fragments :=
                      filter (\<lambda>m. fm_id m \<notin> set (map fm_id models)) (db_fragments db) @ models \<rparr>
      in (toDomainArray json now models, db1))"

section \<open>Document ingestion (ingest-document.use-case.ts)\<close>

record TextChunk =
  tc_content :: string
  tc_position :: int
  tc_tokens :: int
  tc_startIndex :: int
  tc_endIndex :: int

record ParsedDocument =
  pd_content :: string
  pd_metadata :: SourceMetadata

record IngestDocumentDto =
  dto_title :: string
  dto_sectorId :: string
  dto_sourceType :: SourceType
  dto_buffer :: string
  dto_metadata :: "SourceMetadata option"

record IngestDocumentResult =
  res_sourceId :: string
  res_title :: string
  res_fragmentCount :: nat
  res_contentSize :: nat
  res_status :: string

text \<open>
  The collaborators of the use case: the parser, the chunker and the document-mode
  batch embedding are parameters; so are JSON serialisation and parsing of vectors and
  the identifiers the store generates.
\<close>

record Env =
  env_parse :: "string \<Rightarrow> SourceType \<Rightarrow> error + ParsedDocument"
  env_chunk :: "string \<Rightarrow> error + TextChunk list"
  env_embed :: "string list \<Rightarrow> error + real list list"
  env_stringify :: "real list \<Rightarrow> string"
  env_json :: "string \<Rightarrow> real list option"
  env_sourceId :: string
  env_fragmentIds :: "nat \<Rightarrow> string"

text \<open>
  \<open>IngestDocumentUseCase.validateInput\<close>.  A buffer and a source type are always
  present in the model, so the tests for a missing one reduce to the length test.
\<close>

definition ingest_validateInput :: "IngestDocumentDto \<Rightarrow> error + unit" where
  "ingest_validateInput dto =
     (if dto_title dto = [] \<or> length (trim (dto_title dto)) < 1
        then Inl (Error ''Title cannot be empty'')
      else if dto_sectorId dto = [] \<or> length (trim (dto_sectorId dto)) < 1
        then Inl (Error ''SectorId cannot be empty'')
      else if length (dto_buffer dto) < 1 then Inl (Error ''Buffer cannot be empty'')
      else Inr ())"

definition chunk_metadata :: "TextChunk \<Rightarrow> SourceMetadata" where
  "chunk_metadata chunk =
     [''startIndex'' \<mapsto> MNumber (tc_startIndex chunk), ''endIndex'' \<mapsto> MNumber (tc_endIndex chunk),
      ''tokens'' \<mapsto> MNumber (tc_tokens chunk)]"

definition nth_opt :: "'a list \<Rightarrow> nat \<Rightarrow> 'a option" where
  "nth_opt xs i = (if i < length xs then Some (xs ! i) else None)"

text \<open>Step 7: \<^verbatim>\<open>chunks.map((chunk, index) => new Fragment(...))\<close>.\<close>

fun make_fragments :: "date \<Rightarrow> string \<Rightarrow> real list list \<Rightarrow> nat \<Rightarrow> TextChunk list \<Rightarrow> error + Fragment list" where
  "make_fragments now sourceId embeddings index [] = Inr []"
| "make_fragments now sourceId embeddings index (chunk # chunks) =
     (case Fragment_new now
             \<lparr> fd_sourceId = sourceId, fd_content = tc_content chunk,
               fd_position = tc_position chunk, fd_embedding = nth_opt embeddings index,
               fd_metadata = Some (chunk_metadata chunk) \<rparr> of
        Inl e \<Rightarrow> Inl e
      | Inr f \<Rightarrow> (case make_fragments now sourceId embeddings (index + 1) chunks of
                    Inl e \<Rightarrow> Inl e
                  | Inr fs \<Rightarrow> Inr (f # fs)))"

text \<open>
  \<open>IngestDocumentUseCase.execute\<close>.  The catch block logs and re-throws, so a failure
  of any step is the result, with the store as the steps before it left it.
\<close>

definition ingest_execute :: "Env \<Rightarrow> date \<Rightarrow> Db \<Rightarrow> IngestDocumentDto \<Rightarrow> (error + IngestDocumentResult) \<times> Db" where
  "ingest_execute env now db dto =
     (case ingest_validateInput dto of
        Inl e \<Rightarrow> (Inl e, db)
      | Inr _ \<Rightarrow>
     (case env_parse env (dto_buffer dto) (dto_sourceType dto) of
        Inl e \<Rightarrow> (Inl e, db)
      | Inr parsed \<Rightarrow>
     (case KnowledgeSource_new now
             \<lparr> d_title = dto_title dto, d_sectorId = dto_sectorId dto,
               d_sourceType = dto_sourceType dto, d_content = pd_content parsed,
               d_metadata = Some (spread (dto_metadata dto) (pd_metadata parsed)) \<rparr> of
        Inl e \<Rightarrow> (Inl e, db)
      | Inr source0 \<Rightarrow>
     (case markAsProcessing now source0 of
        Inl e \<Rightarrow> (Inl e, db)
      | Inr source \<Rightarrow>
     (case saveSource (env_sourceId env) now db source of
        (Inl e, db1) \<Rightarrow> (Inl e, db1)
      | (Inr savedSource, db1) \<Rightarrow>
     (case ks_id savedSource of
        None \<Rightarrow> (Inl (Error ''Failed to save knowledge source: ID not generated''), db1)
      | Some sid \<Rightarrow>
     (if sid = [] then (Inl (Error ''Failed to save knowledge source: ID not generated''), db1) else
     (case env_chunk env (pd_content parsed) of
        Inl e \<Rightarrow> (Inl e, db1)
      | Inr chunks \<Rightarrow>
     (case env_embed env (map tc_content chunks) of
        Inl e \<Rightarrow> (Inl e, db1)
      | Inr embeddings \<Rightarrow>
     (case make_fragments now sid embeddings 0 chunks of
        Inl e \<Rightarrow> (Inl e, db1)
      | Inr fragments \<Rightarrow>
     (case saveFragments (env_stringify env) (env_json env) (env_fragmentIds env) now db1 fragments of
        (Inl e, db2) \<Rightarrow> (Inl e, db2)
      | (Inr _, db2) \<Rightarrow>
     (case markAsCompleted now savedSource of
        Inl e \<Rightarrow> (Inl e, db2)
      | Inr completed \<Rightarrow>
     (case saveSource (env_sourceId env) now db2 completed of
        (Inl e, db3) \<Rightarrow> (Inl e, db3)
      | (Inr _, db3) \<Rightarrow>
          (Inr \<lparr> res_sourceId = sid, res_title = ks_title completed,
                 res_fragmentCount = length fragments,
                 res_contentSize = length (pd_content parsed),
                 res_status = ''COMPLETED'' \<rparr>, db3))))))))))))))"

text \<open>An ingestion whose embedding provider fails, used as a concrete input below.\<close>

definition handbook_dto :: IngestDocumentDto where
  "handbook_dto =
     \<lparr> dto_title = ''Handbook'', dto_sectorId = ''hr'', dto_sourceType = MARKDOWN,
       dto_buffer = ''Vacation policy text'', dto_metadata = None \<rparr>"

definition failing_embed_env :: Env where
  "failing_embed_env =
     \<lparr> env_parse = (\<lambda>buffer sourceType. Inr \<lparr> pd_content = buffer, pd_metadata = Map.empty \<rparr>),
       env_chunk = (\<lambda>content. Inr [\<lparr> tc_content = content, tc_position = 0, tc_tokens = 4,
                                      tc_startIndex = 0, tc_endIndex = int (length content) \<rparr>]),
       env_embed = (\<lambda>texts. Inl (Error ''API rate limit exceeded'')),
       env_stringify = (\<lambda>v. ''[]''),
       env_json = (\<lambda>s. None),
       env_sourceId = ''source-1'',
       env_fragmentIds = (\<lambda>i. ''frag-1'') \<rparr>"

definition empty_db :: Db where
  "empty_db = \<lparr> db_sources = [], db_fragments = [] \<rparr>"

section \<open>Concrete inputs\<close>

definition pending_row :: FragmentModel where
  "pending_row =
     \<lparr> fm_id = ''frag-1'', fm_sourceId = ''source-1'', fm_content = ''Vacation policy text'',
       fm_embedding = None, fm_position = 0, fm_tokenCount = 4, fm_metadata = None,
       fm_createdAt = 1, fm_updatedAt = 1 \<rparr>"

definition gemini_config :: EmbeddingConfig where
  "gemini_config =
     \<lparr> cfg_model = ''googleai/gemini-embedding-001'', cfg_dimensions = 3072,
       cfg_batchSize = 100, cfg_apiKey = Some ''key'' \<rparr>"

definition gemini_fragment :: FragmentData where
  "gemini_fragment =
     \<lparr> fd_sourceId = ''source-1'', fd_content = ''Vacation policy text'', fd_position = 0,
       fd_embedding = Some (replicate 3072 0.1), fd_metadata = None \<rparr>"

subsection \<open>Stored vectors\<close>

text \<open>
  The text of a vector whose components are one-digit numbers, as
  \<^verbatim>\<open>JSON.stringify\<close> writes it and the vector column returns it: \<open>show_vector [3, 4, 0]\<close>
  is \<open>[3,4,0]\<close>.  \<open>parse_vector\<close> reads such a text back.  On the texts of this
  form, the only ones that the stores below hold, it is \<^verbatim>\<open>JSON.parse\<close> followed by
  the mapper's type guard.
\<close>

definition digit_char :: "nat \<Rightarrow> char" where
  "digit_char d = char_of (48 + d)"

definition digit_value :: "char \<Rightarrow> nat option" where
  "digit_value c =
     (let n = (of_char c :: nat) in if 48 \<le> n \<and> n \<le> 57 then Some (n - 48) else None)"

fun show_items :: "nat list \<Rightarrow> string" where
  "show_items [] = []"
| "show_items [d] = [digit_char d]"
| "show_items (d # e # ds) = digit_char d # CHR '','' # show_items (e # ds)"

definition show_vector :: "nat list \<Rightarrow> string" where
  "show_vector ds = ''['' @ show_items ds @ '']''"

fun parse_items :: "string \<Rightarrow> real list option" where
  "parse_items [] = None"
| "parse_items [c] = map_option (\<lambda>d. [real d]) (digit_value c)"
| "parse_items (c # s # rest) =
     (if s \<noteq> CHR '','' then None
      else case digit_value c of
             None \<Rightarrow> None
           | Some d \<Rightarrow> map_option ((#) (real d)) (parse_items rest))"

definition parse_vector :: "string \<Rightarrow> real list option" where
  "parse_vector s =
     (case s of
        [] \<Rightarrow> None
      | c # rest \<Rightarrow>
          if c = CHR ''['' \<and> rest \<noteq> [] \<and> last rest = CHR '']''
          then (if butlast rest = [] then Some [] else parse_items (butlast rest))
          else None)"

text \<open>
  The cosine distance of pgvector between two vectors of the same length: one minus
  the inner product over the product of the norms, and NaN when a norm is zero.
  \<open>cosine_text\<close> is the operator applied to a query vector and the text of a stored
  one.
\<close>

definition dot :: "real list \<Rightarrow> real list \<Rightarrow> real" where
  "dot xs ys = sum_list (map (\<lambda>(x, y). x * y) (zip xs ys))"

definition cosine_distance :: "real list \<Rightarrow> real list \<Rightarrow> number" where
  "cosine_distance a b =
     (if dot a a = 0 \<or> dot b b = 0 then NaN
      else Num (1 - dot a b / sqrt (dot a a * dot b b)))"

definition cosine_text :: "real list \<Rightarrow> string \<Rightarrow> number" where
  "cosine_text q stored =
     (case parse_vector stored of
        None \<Rightarrow> NaN
      | Some v \<Rightarrow> cosine_distance q v)"

text \<open>
  Four vectors of 768 components.  Against the query \<open>unit_query\<close>, the first unit
  vector, their cosine similarities are 1, 0.8, 0.6 and NaN.
\<close>

definition unit_query :: "real list" where
  "unit_query = 1 # replicate 767 0"

definition exact_vector :: "nat list" where
  "exact_vector = 1 # replicate 767 0"

definition near_vector :: "nat list" where
  "near_vector = 4 # 3 # replicate 766 0"

definition far_vector :: "nat list" where
  "far_vector = 3 # 4 # replicate 766 0"

definition zero_vector :: "nat list" where
  "zero_vector = replicate 768 0"

subsection \<open>A small knowledge base and its collaborators\<close>

text \<open>
  A source in sector \<open>hr\<close> and one in sector \<open>it\<close>.  \<open>hr_fragment\<close> (similarity 0.6
  to the query), \<open>near_fragment\<close> (0.8), \<open>exact_fragment\<close> (1) and \<open>zero_fragment\<close>
  (the zero vector, similarity NaN) belong to the first, \<open>it_fragment\<close> (1) to the
  second.  \<open>short_row\<close> is a row waiting for its embedding whose content has five
  characters.
\<close>

definition hr_source :: KnowledgeSourceModel where
  "hr_source =
     \<lparr> ksm_id = ''source-1'', ksm_title = ''Handbook'', ksm_sectorId = ''hr'',
       ksm_sourceType = PDF, ksm_content = ''Vacation policy text'', ksm_status = ''COMPLETED'',
       ksm_errorMessage = None, ksm_metadata = None, ksm_createdAt = 1, ksm_updatedAt = 2,
       ksm_deletedAt = None \<rparr>"

definition it_source :: KnowledgeSourceModel where
  "it_source = hr_source\<lparr> ksm_id := ''source-2'', ksm_title := ''Laptops'', ksm_sectorId := ''it'' \<rparr>"

definition hr_fragment :: FragmentModel where
  "hr_fragment = pending_row\<lparr> fm_embedding := Some (show_vector far_vector) \<rparr>"

definition near_fragment :: FragmentModel where
  "near_fragment = pending_row\<lparr> fm_id := ''frag-2'', fm_position := 1,
                                 fm_embedding := Some (show_vector near_vector) \<rparr>"

definition exact_fragment :: FragmentModel where
  "exact_fragment = pending_row\<lparr> fm_id := ''frag-3'', fm_position := 2,
                                  fm_embedding := Some (show_vector exact_vector) \<rparr>"

definition zero_fragment :: FragmentModel where
  "zero_fragment = pending_row\<lparr> fm_id := ''frag-4'', fm_position := 3,
                                 fm_embedding := Some (show_vector zero_vector) \<rparr>"

definition it_fragment :: FragmentModel where
  "it_fragment = pending_row\<lparr> fm_id := ''frag-5'', fm_sourceId := ''source-2'',
                               fm_embedding := Some (show_vector exact_vector) \<rparr>"

definition short_row :: FragmentModel where
  "short_row = pending_row\<lparr> fm_id := ''frag-6'', fm_content := ''short'' \<rparr>"



definition mixed_rows :: "FragmentModel list" where
  "mixed_rows = [near_fragment, pending_row, it_fragment]"

definition unit_embed :: "string \<Rightarrow> error + EmbedResult" where
  "unit_embed s = Inr (EmbedArray [Some unit_query])"

definition echo_generate :: "string \<Rightarrow> error + string" where
  "echo_generate prompt = Inr ''generated answer''"

definition low_threshold_query :: RagQueryInput where
  "low_threshold_query =
     \<lparr> rq_query = ''vacation'', rq_sectorId = ''hr'', rq_conversationId = None,
       rq_maxResults = None, rq_minSimilarity = Some 0.5 \<rparr>"

definition first_question :: QueryAssistantInput where
  "first_question =
     \<lparr> qi_userId = ''u1'', qi_sectorId = ''hr'', qi_query = ''hi'', qi_conversationId = None,
       qi_maxResults = None, qi_minSimilarity = None \<rparr>"

definition no_conversation :: "string \<Rightarrow> string \<Rightarrow> Conversation option" where
  "no_conversation userId sectorId = None"

definition conv_ids :: "nat \<Rightarrow> string" where
  "conv_ids n = (if n = 0 then ''conv-1'' else if n = 1 then ''msg-1'' else ''msg-2'')"

definition one_hit :: "real list \<Rightarrow> string \<Rightarrow> nat \<Rightarrow> error + FragmentResult list" where
  "one_hit embedding sectorId limit =
     Inr [\<lparr> fr_id = ''frag-1'', fr_content = ''Vacation policy text'', fr_similarity = Num 0.9,
            fr_sourceId = ''source-1'', fr_metadata = None \<rparr>]"

definition no_hit :: "real list \<Rightarrow> string \<Rightarrow> nat \<Rightarrow> error + FragmentResult list" where
  "no_hit embedding sectorId limit = Inr []"

definition no_conversation_id :: "string \<Rightarrow> Conversation option" where
  "no_conversation_id ident = None"

text \<open>An embedding service with windows of two texts, and a provider that always answers.\<close>

definition small_batch_config :: EmbeddingConfig where
  "small_batch_config =
     \<lparr> cfg_model = ''googleai/gemini-embedding-001'', cfg_dimensions = 768,
       cfg_batchSize = 2, cfg_apiKey = Some ''key'' \<rparr>"

definition length_provider :: "EmbedRequest \<Rightarrow> error + EmbedResult" where
  "length_provider r = Inr (EmbedArray [Some [real (length (er_content r))]])"

section \<open>Helper facts\<close>

lemma trim_Nil [simp]: "trim [] = []"
  by (simp add: trim_def)

lemma trim_lit: "trim ''source-1'' = ''source-1''" "trim ''Vacation policy text'' \<noteq> []"
  "trim ''short'' \<noteq> []" "trim ''source-2'' \<noteq> []"
  by (simp_all add: trim_def is_ws_def)

section \<open>Stored vectors: text, parsing and cosine distance\<close>

lemma digit_roundtrip: "d < 10 \<Longrightarrow> digit_value (digit_char d) = Some d"
  by (simp add: digit_value_def digit_char_def)

lemma parse_show_items:
  "ds \<noteq> [] \<Longrightarrow> \<forall>d \<in> set ds. d < 10 \<Longrightarrow> parse_items (show_items ds) = Some (map real ds)"
  by (induction ds rule: show_items.induct) (simp_all add: digit_roundtrip)

lemma show_items_nonempty: "ds \<noteq> [] \<Longrightarrow> show_items ds \<noteq> []"
  by (cases ds rule: show_items.cases) simp_all

lemma parse_show_vector:
  "ds \<noteq> [] \<Longrightarrow> \<forall>d \<in> set ds. d < 10 \<Longrightarrow> parse_vector (show_vector ds) = Some (map real ds)"
  by (simp add: parse_vector_def show_vector_def show_items_nonempty parse_show_items)

lemma show_vector_nonempty: "show_vector ds \<noteq> []"
  by (simp add: show_vector_def)

lemma dot_Cons: "dot (x # xs) (y # ys) = x * y + dot xs ys"
  by (simp add: dot_def)

lemma dot_zero_left: "dot (replicate n 0) ys = 0"
  by (induction n arbitrary: ys) (case_tac ys; simp add: dot_def)+

lemma dot_zero_right: "dot xs (replicate n 0) = 0"
  by (induction n arbitrary: xs) (case_tac xs; simp add: dot_def)+

lemma stored_vectors:
  "parse_vector (show_vector exact_vector) = Some (1 # replicate 767 0)"
  "parse_vector (show_vector near_vector) = Some (4 # 3 # replicate 766 0)"
  "parse_vector (show_vector far_vector) = Some (3 # 4 # replicate 766 0)"
  "parse_vector (show_vector zero_vector) = Some (replicate 768 0)"
  by (simp_all add: parse_show_vector exact_vector_def near_vector_def far_vector_def zero_vector_def)

lemma sqrt_25: "sqrt 25 = 5"
  by (rule real_sqrt_unique) simp_all

lemma stored_distances:
  "cosine_text unit_query (show_vector exact_vector) = Num 0"
  "cosine_text unit_query (show_vector near_vector) = Num (1/5)"
  "cosine_text unit_query (show_vector far_vector) = Num (2/5)"
  "cosine_text unit_query (show_vector zero_vector) = NaN"
  by (simp_all add: cosine_text_def stored_vectors cosine_distance_def unit_query_def dot_Cons
      dot_zero_left dot_zero_right sqrt_25)

lemma kb_similarities:
  "similarity_of cosine_text unit_query (show_vector exact_vector) = Num 1"
  "similarity_of cosine_text unit_query (show_vector near_vector) = Num (4/5)"
  "similarity_of cosine_text unit_query (show_vector far_vector) = Num (3/5)"
  "similarity_of cosine_text unit_query (show_vector zero_vector) = NaN"
  by (simp_all add: similarity_of_def stored_distances)

lemma kb_fields:
  "fm_sourceId hr_fragment = ''source-1''" "fm_embedding hr_fragment = Some (show_vector far_vector)"
  "fm_sourceId near_fragment = ''source-1''" "fm_embedding near_fragment = Some (show_vector near_vector)"
  "fm_sourceId exact_fragment = ''source-1''" "fm_embedding exact_fragment = Some (show_vector exact_vector)"
  "fm_sourceId zero_fragment = ''source-1''" "fm_embedding zero_fragment = Some (show_vector zero_vector)"
  "fm_sourceId it_fragment = ''source-2''" "fm_embedding it_fragment = Some (show_vector exact_vector)"
  "fm_id hr_fragment = ''frag-1''" "fm_id near_fragment = ''frag-2''" "fm_id exact_fragment = ''frag-3''"
  "fm_id zero_fragment = ''frag-4''" "fm_id it_fragment = ''frag-5''"
  "ksm_id hr_source = ''source-1''" "ksm_sectorId hr_source = ''hr''"
  "ksm_id it_source = ''source-2''" "ksm_sectorId it_source = ''it''"
  by (simp_all add: hr_fragment_def near_fragment_def exact_fragment_def zero_fragment_def
      it_fragment_def pending_row_def hr_source_def it_source_def)

lemma kb_rows_mappable:
  "row_mappable parse_vector hr_fragment" "row_mappable parse_vector near_fragment"
  "row_mappable parse_vector exact_fragment" "row_mappable parse_vector zero_fragment"
  "row_mappable parse_vector it_fragment" "row_mappable parse_vector pending_row"
  by (simp_all add: row_mappable_def row_fields_ok_def parseEmbedding_def show_vector_nonempty
      stored_vectors VALID_DIMENSIONS_def hr_fragment_def near_fragment_def exact_fragment_def
      zero_fragment_def it_fragment_def pending_row_def trim_lit)

section \<open>KnowledgeSource status operations\<close>

text \<open>
  C6, as stated, fails.  The claim says that every status-mutating operation rejects a
  transition outside PENDING, PROCESSING, then COMPLETED or FAILED.  A source that is
  already COMPLETED accepts \<open>markAsProcessing\<close> and goes back to PROCESSING.
\<close>

theorem C6_counterexample:
  "ks_status completed_source = ''COMPLETED'' \<and>
   map_sum id ks_status (markAsProcessing 7 completed_source) = Inr ''PROCESSING''"
  by (simp add: completed_source_def markAsProcessing_def ensureNotDeleted_def isDeleted_def)

text \<open>
  C6, amended.  On a DELETED source \<open>markAsProcessing\<close>, \<open>markAsCompleted\<close>,
  \<open>markAsFailed\<close> and \<open>updateMetadata\<close> all throw "Cannot modify deleted source".  On
  any other source \<open>markAsProcessing\<close> and \<open>markAsFailed\<close> succeed whatever the
  current status is, \<open>updateMetadata\<close> succeeds and keeps the status, and
  \<open>markAsCompleted\<close> succeeds exactly when the status is PROCESSING.
\<close>

theorem C6_status_operations:
  "(ks_status s = ''DELETED'' \<longrightarrow>
      markAsProcessing now s = Inl (Error ''Cannot modify deleted source'') \<and>
      markAsCompleted now s = Inl (Error ''Cannot modify deleted source'') \<and>
      markAsFailed now msg s = Inl (Error ''Cannot modify deleted source'') \<and>
      updateMetadata now md s = Inl (Error ''Cannot modify deleted source'')) \<and>
   (ks_status s \<noteq> ''DELETED'' \<longrightarrow>
      markAsProcessing now s = Inr (s\<lparr> ks_status := ''PROCESSING'', ks_updatedAt := now \<rparr>) \<and>
      markAsFailed now msg s =
        Inr (s\<lparr> ks_status := ''FAILED'', ks_errorMessage := Some msg, ks_updatedAt := now \<rparr>) \<and>
      map_sum id ks_status (updateMetadata now md s) = Inr (ks_status s) \<and>
      markAsCompleted now s =
        (if ks_status s = ''PROCESSING''
         then Inr (s\<lparr> ks_status := ''COMPLETED'', ks_updatedAt := now \<rparr>)
         else Inl (Error ''Cannot mark as completed: source is not being processed'')))"
  by (simp add: markAsProcessing_def markAsCompleted_def markAsFailed_def updateMetadata_def
      ensureNotDeleted_def isDeleted_def)

theorem C6_status_operations_witness:
  "markAsFailed 7 ''boom'' completed_source =
     Inr (completed_source\<lparr> ks_status := ''FAILED'', ks_errorMessage := Some ''boom'',
                             ks_updatedAt := 7 \<rparr>) \<and>
   markAsCompleted 7 completed_source =
     Inl (Error ''Cannot mark as completed: source is not being processed'') \<and>
   markAsProcessing 9 (delete_source 8 completed_source) =
     Inl (Error ''Cannot modify deleted source'')"
proof -
  have live: "ks_status completed_source \<noteq> ''DELETED''"
    by (simp add: completed_source_def)
  have dead: "ks_status (delete_source 8 completed_source) = ''DELETED''"
    by (simp add: delete_source_def)
  have np: "ks_status completed_source \<noteq> ''PROCESSING''"
    by (simp add: completed_source_def)
  from C6_status_operations [of completed_source 7 "''boom''" Map.empty] live np
    C6_status_operations [of "delete_source 8 completed_source" 9 "''boom''" Map.empty] dead
  show ?thesis by simp
qed

section \<open>Fragment embedding dimensions\<close>

lemma fragment_validate_dimension:
  "fragment_validate d = Inr () \<Longrightarrow>
   \<exists>e. fd_embedding d = Some e \<and> (length e = 768 \<or> length e = 1536)"
  by (auto simp: fragment_validate_def validateEmbeddingDimension_def VALID_DIMENSIONS_def
      split: if_splits option.splits)

lemma updateEmbedding_dimension:
  "updateEmbedding e f = Inr f' \<Longrightarrow> length e = 768 \<or> length e = 1536"
  by (auto simp: updateEmbedding_def validateEmbeddingDimension_def VALID_DIMENSIONS_def
      split: if_splits sum.splits)

text \<open>
  C4: the code at the failing input.  The embedding service accepts the configuration
  with 3072 dimensions (its default), and a vector of that length, with a valid source
  identifier, content and position, is rejected by the Fragment constructor, whose own
  list of dimensions is 768 and 1536.
\<close>

theorem C4_default_dimension_rejected:
  "validateConfig gemini_config = Inr () \<and>
   int (length (the (fd_embedding gemini_fragment))) = cfg_dimensions gemini_config \<and>
   Fragment_new 0 gemini_fragment = Inl (Error ''Embedding must be 768 or 1536 dimensions'')"
  by (simp add: validateConfig_def gemini_config_def SUPPORTED_DIMENSIONS_def gemini_fragment_def
      Fragment_new_def fragment_validate_def validateEmbeddingDimension_def VALID_DIMENSIONS_def
      trim_lit)

section \<open>Loading fragments whose embedding is null\<close>

lemma toDomain_null:
  assumes "fm_embedding model = None" and "row_fields_ok model"
  shows "toDomain json now model = Inr (loaded_null model)"
  using assms
  by (auto simp: toDomain_def parseEmbedding_def Fragment_new_def fragment_validate_def
      validateEmbeddingDimension_def VALID_DIMENSIONS_def DEFAULT_EMBEDDING_DIMENSION_def
      row_fields_ok_def loaded_null_def Let_def)

lemma toDomain_rejects:
  assumes "\<not> row_mappable json model"
  shows "\<exists>e. toDomain json now model = Inl e"
  using assms
  by (auto simp: toDomain_def Fragment_new_def fragment_validate_def row_mappable_def
      validateEmbeddingDimension_def VALID_DIMENSIONS_def DEFAULT_EMBEDDING_DIMENSION_def
      row_fields_ok_def Let_def split: option.splits)

lemma toDomain_mappable:
  assumes "row_mappable json model"
  shows "\<exists>f. toDomain json now model = Inr f \<and> row_loaded model f"
  using assms
  by (auto simp: toDomain_def Fragment_new_def fragment_validate_def row_mappable_def
      validateEmbeddingDimension_def VALID_DIMENSIONS_def DEFAULT_EMBEDDING_DIMENSION_def
      row_fields_ok_def row_loaded_def parseEmbedding_def Let_def split: option.splits)

lemma row_loaded_null:
  "row_loaded m f \<Longrightarrow> fm_embedding m = None \<Longrightarrow> f = loaded_null m"
  by (cases f) (simp add: row_loaded_def loaded_null_def)

lemma toDomainArray_loaded:
  assumes "\<forall>m \<in> set ms. row_mappable json m"
  shows "\<exists>fs. toDomainArray json now ms = Inr fs \<and> list_all2 row_loaded ms fs"
  using assms
proof (induction ms)
  case Nil
  then show ?case by simp
next
  case (Cons m ms)
  then obtain fs where fs: "toDomainArray json now ms = Inr fs" "list_all2 row_loaded ms fs"
    by auto
  from Cons.prems have "row_mappable json m" by simp
  from toDomain_mappable [OF this] obtain f where "toDomain json now m = Inr f" "row_loaded m f"
    by blast
  with fs show ?case by simp
qed

lemma toDomainArray_rejects:
  assumes "\<exists>m \<in> set ms. \<not> row_mappable json m"
  shows "\<exists>e. toDomainArray json now ms = Inl e"
  using assms
proof (induction ms)
  case Nil
  then show ?case by simp
next
  case (Cons m ms)
  show ?case
  proof (cases "row_mappable json m")
    case True
    with Cons.prems have "\<exists>m \<in> set ms. \<not> row_mappable json m" by simp
    from Cons.IH [OF this] show ?thesis by (auto split: sum.splits)
  next
    case False
    from toDomain_rejects [OF this, of now] obtain e where "toDomain json now m = Inl e" by blast
    then show ?thesis by simp
  qed
qed

lemma null_row_mappable: "fm_embedding m = None \<Longrightarrow> row_mappable json m = row_fields_ok m"
  by (simp add: row_mappable_def parseEmbedding_def)

lemma constructor_rejects_null:
  "row_fields_ok m \<Longrightarrow>
   Fragment_new now (constructor_data (loaded_null m)) = Inl (Error ''Embedding cannot be null or undefined'')"
  by (auto simp: Fragment_new_def fragment_validate_def constructor_data_def loaded_null_def
      row_fields_ok_def)

text \<open>
  C9, as stated, fails.  The claim says that loading any persisted row whose embedding
  column is null returns a Fragment.  The mapper builds the Fragment with the
  constructor, which checks the other fields of the row: a row with a null embedding
  and a content of five characters makes \<open>findFragmentById\<close> and
  \<open>findFragmentsBySource\<close> throw "Content must be at least 10 characters long".
\<close>

theorem C9_counterexample:
  "fm_embedding short_row = None \<and>
   findFragmentById parse_vector 5 [short_row] ''frag-6''
     = Inl (Error ''Content must be at least 10 characters long'') \<and>
   findFragmentsBySource parse_vector 5 [short_row] ''source-1''
     = Inl (Error ''Content must be at least 10 characters long'')"
  by (simp add: short_row_def pending_row_def findFragmentById_def findFragmentsBySource_def
      toDomain_def parseEmbedding_def Fragment_new_def fragment_validate_def trim_lit
      DEFAULT_EMBEDDING_DIMENSION_def Let_def)

text \<open>
  C9, amended.  Let a row have a null embedding column.  If its source id, content and
  position pass the constructor's checks, \<open>findFragmentById\<close> returns the Fragment that
  carries exactly the fields of that row and a null embedding, and the Fragment
  constructor rejects these field values with "Embedding cannot be null or undefined";
  otherwise \<open>findFragmentById\<close> throws.  \<open>findFragmentsBySource\<close>, when every row of
  the source can be mapped (rows with and without a stored vector alike), returns one
  Fragment for each row of the source, in the order of the positions, each carrying the
  fields of its row, with a null embedding exactly for the rows whose column is null;
  when some row of the source cannot be mapped, it throws.
\<close>

theorem C9_null_embedding_loaded:
  "(find (\<lambda>m. fm_id m = ident) rows = Some model \<and> fm_embedding model = None \<longrightarrow>
      (row_fields_ok model \<longrightarrow>
         findFragmentById json now rows ident = Inr (Some (loaded_null model)) \<and>
         Fragment_new later (constructor_data (loaded_null model))
           = Inl (Error ''Embedding cannot be null or undefined'')) \<and>
      (\<not> row_fields_ok model \<longrightarrow> (\<exists>e. findFragmentById json now rows ident = Inl e))) \<and>
   ((\<forall>m \<in> set rows. fm_sourceId m = sourceId \<longrightarrow> row_mappable json m) \<longrightarrow>
      (\<exists>fs. findFragmentsBySource json now rows sourceId = Inr fs \<and>
            list_all2 row_loaded
              (sort_key fm_position (filter (\<lambda>m. fm_sourceId m = sourceId) rows)) fs \<and>
            list_all2 (\<lambda>m f. fm_embedding m = None \<longrightarrow> f = loaded_null m)
              (sort_key fm_position (filter (\<lambda>m. fm_sourceId m = sourceId) rows)) fs)) \<and>
   ((\<exists>m \<in> set rows. fm_sourceId m = sourceId \<and> \<not> row_mappable json m) \<longrightarrow>
      (\<exists>e. findFragmentsBySource json now rows sourceId = Inl e))"
proof (intro conjI impI)
  assume "find (\<lambda>m. fm_id m = ident) rows = Some model \<and> fm_embedding model = None"
    and "row_fields_ok model"
  then show "findFragmentById json now rows ident = Inr (Some (loaded_null model))"
    by (simp add: findFragmentById_def toDomain_null)
next
  assume "row_fields_ok model"
  then show "Fragment_new later (constructor_data (loaded_null model))
           = Inl (Error ''Embedding cannot be null or undefined'')"
    by (rule constructor_rejects_null)
next
  assume a: "find (\<lambda>m. fm_id m = ident) rows = Some model \<and> fm_embedding model = None"
    and "\<not> row_fields_ok model"
  then have "\<not> row_mappable json model" by (simp add: null_row_mappable)
  from toDomain_rejects [OF this, of now] a
  show "\<exists>e. findFragmentById json now rows ident = Inl e"
    by (auto simp: findFragmentById_def)
next
  assume a: "\<forall>m \<in> set rows. fm_sourceId m = sourceId \<longrightarrow> row_mappable json m"
  let ?sel = "sort_key fm_position (filter (\<lambda>m. fm_sourceId m = sourceId) rows)"
  have "\<forall>m \<in> set ?sel. row_mappable json m" using a by auto
  from toDomainArray_loaded [OF this, of now] obtain fs where
    fs: "toDomainArray json now ?sel = Inr fs" "list_all2 row_loaded ?sel fs" by blast
  from fs(2) have "list_all2 (\<lambda>m f. fm_embedding m = None \<longrightarrow> f = loaded_null m) ?sel fs"
    by (rule list_all2_mono) (simp add: row_loaded_null)
  with fs show "\<exists>fs. findFragmentsBySource json now rows sourceId = Inr fs \<and>
            list_all2 row_loaded ?sel fs \<and>
            list_all2 (\<lambda>m f. fm_embedding m = None \<longrightarrow> f = loaded_null m) ?sel fs"
    by (simp add: findFragmentsBySource_def)
next
  assume "\<exists>m \<in> set rows. fm_sourceId m = sourceId \<and> \<not> row_mappable json m"
  then have "\<exists>m \<in> set (sort_key fm_position (filter (\<lambda>m. fm_sourceId m = sourceId) rows)).
               \<not> row_mappable json m" by auto
  from toDomainArray_rejects [OF this]
  show "\<exists>e. findFragmentsBySource json now rows sourceId = Inl e"
    by (simp add: findFragmentsBySource_def)
qed

lemma mixed_rows_facts:
  "find (\<lambda>m. fm_id m = ''frag-1'') mixed_rows = Some pending_row"
  "sort_key fm_position (filter (\<lambda>m. fm_sourceId m = ''source-1'') mixed_rows)
     = [pending_row, near_fragment]"
  "fm_embedding pending_row = None" "row_fields_ok pending_row"
  "fm_embedding near_fragment \<noteq> None" "fm_id near_fragment = ''frag-2''"
  by (simp_all add: mixed_rows_def kb_fields pending_row_def
      row_fields_ok_def trim_lit near_fragment_def it_fragment_def)

lemma mixed_rows_mappable:
  "\<forall>m \<in> set mixed_rows. fm_sourceId m = ''source-1'' \<longrightarrow> row_mappable parse_vector m"
  by (simp add: mixed_rows_def kb_rows_mappable)

lemma short_row_facts:
  "find (\<lambda>m. fm_id m = ''frag-6'') [short_row] = Some short_row"
  "fm_embedding short_row = None" "\<not> row_fields_ok short_row"
  "\<exists>m \<in> set [short_row]. fm_sourceId m = ''source-1'' \<and> \<not> row_mappable parse_vector m"
  by (simp_all add: short_row_def pending_row_def row_fields_ok_def row_mappable_def)

theorem C9_null_embedding_loaded_witness:
  "findFragmentById parse_vector 5 mixed_rows ''frag-1'' = Inr (Some (loaded_null pending_row)) \<and>
   Fragment_new 9 (constructor_data (loaded_null pending_row))
     = Inl (Error ''Embedding cannot be null or undefined'') \<and>
   (\<exists>f. findFragmentsBySource parse_vector 5 mixed_rows ''source-1''
           = Inr [loaded_null pending_row, f] \<and>
        f_id f = Some ''frag-2'' \<and> f_embedding f \<noteq> None) \<and>
   (\<exists>e. findFragmentById parse_vector 5 [short_row] ''frag-6'' = Inl e) \<and>
   (\<exists>e. findFragmentsBySource parse_vector 5 [short_row] ''source-1'' = Inl e)"
proof -
  note loaded = C9_null_embedding_loaded
    [of "''frag-1''" mixed_rows pending_row parse_vector 5 9 "''source-1''"]
  note thrown = C9_null_embedding_loaded
    [of "''frag-6''" "[short_row]" short_row parse_vector 5 9 "''source-1''"]
  from loaded mixed_rows_facts
  have one: "findFragmentById parse_vector 5 mixed_rows ''frag-1'' = Inr (Some (loaded_null pending_row)) \<and>
   Fragment_new 9 (constructor_data (loaded_null pending_row))
     = Inl (Error ''Embedding cannot be null or undefined'')" by blast
  from loaded mixed_rows_facts(2) mixed_rows_mappable obtain fs where
    fs: "findFragmentsBySource parse_vector 5 mixed_rows ''source-1'' = Inr fs"
      "list_all2 row_loaded [pending_row, near_fragment] fs"
      "list_all2 (\<lambda>m f. fm_embedding m = None \<longrightarrow> f = loaded_null m) [pending_row, near_fragment] fs"
    by auto
  from fs(2,3) mixed_rows_facts(3,5,6) obtain f where
    "fs = [loaded_null pending_row, f]" "f_id f = Some ''frag-2''" "f_embedding f \<noteq> None"
    by (auto simp: list_all2_Cons1 row_loaded_def)
  with fs(1) have many: "\<exists>f. findFragmentsBySource parse_vector 5 mixed_rows ''source-1''
           = Inr [loaded_null pending_row, f] \<and>
        f_id f = Some ''frag-2'' \<and> f_embedding f \<noteq> None" by blast
  from thrown short_row_facts
  have bad: "(\<exists>e. findFragmentById parse_vector 5 [short_row] ''frag-6'' = Inl e) \<and>
   (\<exists>e. findFragmentsBySource parse_vector 5 [short_row] ''source-1'' = Inl e)" by blast
  from one many bad show ?thesis by blast
qed

section \<open>The RAG flow: fallback and generation\<close>

text \<open>
  C5.  Once the input is valid, the embedding is produced and the search has returned,
  \<open>executeQuery\<close> answers with the fixed fallback text and no sources, and makes no
  generative-model call, when no fragment has a similarity at or above the threshold
  (in the comparison of JavaScript, which a similarity that is NaN does not pass);
  and it calls the generative model, with the prompt built from the passing fragments,
  when at least one fragment passes.
\<close>

theorem C5_fallback_without_generation:
  "ragQueryInputSchema_parse input = Inr v \<and>
   embedF (vi_query v) = Inr (EmbedArray (Some q # rest)) \<and>
   vectorSearchF q (vi_sectorId v) (vi_maxResults v) = Inr allFragments
   \<longrightarrow>
   (filter (\<lambda>f. js_ge (fr_similarity f) (Num (vi_minSimilarity v))) allFragments = [] \<longrightarrow>
      (\<exists>out. fst (executeQuery embedF vectorSearchF generate now input) = Inr out \<and>
             ro_response out = FALLBACK_RESPONSE \<and> ro_sources out = []) \<and>
      (\<forall>p. GenerateCall p \<notin> set (snd (executeQuery embedF vectorSearchF generate now input)))) \<and>
   (filter (\<lambda>f. js_ge (fr_similarity f) (Num (vi_minSimilarity v))) allFragments \<noteq> [] \<longrightarrow>
      GenerateCall (buildPrompt (vi_query v)
                      (filter (\<lambda>f. js_ge (fr_similarity f) (Num (vi_minSimilarity v))) allFragments))
        \<in> set (snd (executeQuery embedF vectorSearchF generate now input)))"
  by (auto simp: executeQuery_def Let_def split: sum.splits)

lemma low_threshold_parsed:
  "ragQueryInputSchema_parse low_threshold_query =
      Inr \<lparr> vi_query = ''vacation'', vi_sectorId = ''hr'', vi_conversationId = None,
            vi_maxResults = 5, vi_minSimilarity = 1/2 \<rparr>"
  by (simp add: ragQueryInputSchema_parse_def low_threshold_query_def DEFAULT_MAX_RESULTS_def
      MAX_RESULTS_LIMIT_def)

theorem C5_fallback_without_generation_witness:
  "(\<exists>out. fst (executeQuery unit_embed no_hit echo_generate 3 low_threshold_query) = Inr out \<and>
          ro_response out = FALLBACK_RESPONSE \<and> ro_sources out = []) \<and>
   (\<forall>p. GenerateCall p \<notin> set (snd (executeQuery unit_embed no_hit echo_generate 3 low_threshold_query))) \<and>
   (\<exists>p. GenerateCall p \<in> set (snd (executeQuery unit_embed one_hit echo_generate 3 low_threshold_query)))"
proof -
  let ?v = "\<lparr> vi_query = ''vacation'', vi_sectorId = ''hr'', vi_conversationId = None,
              vi_maxResults = 5, vi_minSimilarity = 1/2 \<rparr>"
  let ?hit = "\<lparr> fr_id = ''frag-1'', fr_content = ''Vacation policy text'',
                fr_similarity = Num 0.9, fr_sourceId = ''source-1'', fr_metadata = None \<rparr>"
  have e: "unit_embed (vi_query ?v) = Inr (EmbedArray (Some unit_query # []))"
    by (simp add: unit_embed_def)
  have n: "no_hit unit_query (vi_sectorId ?v) (vi_maxResults ?v) = Inr []"
    by (simp add: no_hit_def)
  have h: "one_hit unit_query (vi_sectorId ?v) (vi_maxResults ?v) = Inr [?hit]"
    by (simp add: one_hit_def)
  have empty: "filter (\<lambda>f. js_ge (fr_similarity f) (Num (vi_minSimilarity ?v))) [] = []"
    by simp
  have found: "filter (\<lambda>f. js_ge (fr_similarity f) (Num (vi_minSimilarity ?v))) [?hit] \<noteq> []"
    by simp
  from C5_fallback_without_generation
         [of low_threshold_query ?v unit_embed unit_query "[]" no_hit "[]" echo_generate 3]
       low_threshold_parsed e n empty
  have first: "(\<exists>out. fst (executeQuery unit_embed no_hit echo_generate 3 low_threshold_query) = Inr out \<and>
          ro_response out = FALLBACK_RESPONSE \<and> ro_sources out = []) \<and>
   (\<forall>p. GenerateCall p \<notin> set (snd (executeQuery unit_embed no_hit echo_generate 3 low_threshold_query)))"
    by blast
  from C5_fallback_without_generation
         [of low_threshold_query ?v unit_embed unit_query "[]" one_hit "[?hit]" echo_generate 3]
       low_threshold_parsed e h found
  have second: "\<exists>p. GenerateCall p \<in> set (snd (executeQuery unit_embed one_hit echo_generate 3 low_threshold_query))"
    by blast
  from first second show ?thesis by blast
qed

section \<open>Vector search results\<close>

lemma raw_result_guard [simp]: "isVectorSearchRawResult r"
  by (auto simp: isVectorSearchRawResult_def)

lemma toDomain_fields:
  assumes "toDomain json now m = Inr f"
  shows "f_id f = Some (fm_id m)" "f_sourceId f = fm_sourceId m" "f_content f = fm_content m"
    "fm_embedding m \<noteq> None \<Longrightarrow> f_embedding f \<noteq> None"
  using assms
  by (auto simp: toDomain_def Let_def Fragment_new_def split: sum.splits if_splits)

lemma map_result_fields:
  assumes "map_result json now r = Inr w"
  shows "f_id w = Some (raw_id r)" "f_sourceId w = raw_source_id r"
    "similarity w = raw_similarity r" "raw_embedding r \<noteq> None \<Longrightarrow> f_embedding w \<noteq> None"
proof -
  from assms obtain f where f: "toDomain json now (raw_to_model r) = Inr f"
      and w: "w = Fragment.extend f (FragmentWithSimilarity.fields (raw_similarity r))"
    by (auto simp: map_result_def split: sum.splits)
  from toDomain_fields [OF f] w
  show "f_id w = Some (raw_id r)" "f_sourceId w = raw_source_id r"
    "similarity w = raw_similarity r" "raw_embedding r \<noteq> None \<Longrightarrow> f_embedding w \<noteq> None"
    by (simp_all add: raw_to_model_def Fragment.extend_def FragmentWithSimilarity.fields_def)
qed







lemma order_by_similarity_desc_set [simp]: "set (order_by_similarity_desc rows) = set rows"
  by (auto simp: order_by_similarity_desc_def)






lemma raw_row_fields [simp]:
  "raw_id (raw_row f x) = fm_id f" "raw_similarity (raw_row f x) = x"
  "raw_to_model (raw_row f x) = f"
  by (simp_all add: raw_row_def raw_to_model_def)

lemma map_results_mappable:
  assumes "\<forall>r \<in> set rs. row_mappable json (raw_to_model r)"
  shows "\<exists>ws. map_results json now rs = Inr ws \<and>
              map (\<lambda>w. (f_id w, similarity w)) ws = map (\<lambda>r. (Some (raw_id r), raw_similarity r)) rs"
  using assms
proof (induction rs)
  case Nil
  then show ?case by simp
next
  case (Cons r rs)
  then obtain ws where ws: "map_results json now rs = Inr ws"
      "map (\<lambda>w. (f_id w, similarity w)) ws = map (\<lambda>r. (Some (raw_id r), raw_similarity r)) rs"
    by auto
  from Cons.prems have "row_mappable json (raw_to_model r)" by simp
  from toDomain_mappable [OF this, of now] obtain f where
    "toDomain json now (raw_to_model r) = Inr f" by blast
  then obtain w where w: "map_result json now r = Inr w" by (simp add: map_result_def)
  from map_result_fields [OF w] w ws show ?case by simp
qed




lemma hr_query_low:
  "vector_query cosine_text [hr_fragment] [hr_source] unit_query ''hr'' (Num (1/2)) 5
     = [raw_row hr_fragment (Num (3/5))]"
  by (simp add: vector_query_def join_rows_def where_clause_def
      select_row_def order_by_similarity_desc_def kb_fields kb_similarities)

lemma hr_query_default:
  "vector_query cosine_text [hr_fragment] [hr_source] unit_query ''hr'' (Num (7/10)) 5 = []"
  by (simp add: vector_query_def join_rows_def where_clause_def
      select_row_def order_by_similarity_desc_def kb_fields kb_similarities)







section \<open>The caller's similarity threshold\<close>

text \<open>
  C2: the code at the failing input.  The knowledge base holds one fragment of sector
  \<open>hr\<close> with similarity 0.6.  The repository, asked with threshold 0.5, returns it.
  The query pipeline, asked with \<open>minSimilarity = 0.5\<close>, returns the fallback with no
  sources: the module's \<open>vectorSearchFn\<close> does not pass the threshold on, so the
  repository filters with its default 0.7 first.
\<close>

theorem C2_low_threshold_ignored:
  "map_sum id (map (\<lambda>w. (f_id w, similarity w)))
     (vectorSearch cosine_text parse_vector 0 [hr_fragment] [hr_source] unit_query ''hr''
        (Some 5) (Some (Num 0.5)))
     = Inr [(Some ''frag-1'', Num 0.6)] \<and>
   rq_minSimilarity low_threshold_query = Some 0.5 \<and>
   map_sum id (\<lambda>out. (ro_response out, ro_sources out))
     (fst (executeQuery unit_embed
             (vectorSearchFn cosine_text parse_vector 0 [hr_fragment] [hr_source])
             echo_generate 0 low_threshold_query))
     = Inr (FALLBACK_RESPONSE, [])"
proof -
  let ?rs = "[raw_row hr_fragment (Num (3/5))]"
  have "\<forall>r \<in> set ?rs. row_mappable parse_vector (raw_to_model r)"
    by (simp add: kb_rows_mappable)
  from map_results_mappable [OF this, of 0] obtain ws where
    "map_results parse_vector 0 ?rs = Inr ws"
    "map (\<lambda>w. (f_id w, similarity w)) ws = map (\<lambda>r. (Some (raw_id r), raw_similarity r)) ?rs"
    by blast
  then have repo: "map_sum id (map (\<lambda>w. (f_id w, similarity w)))
     (vectorSearch cosine_text parse_vector 0 [hr_fragment] [hr_source] unit_query ''hr''
        (Some 5) (Some (Num (1/2))))
     = Inr [(Some ''frag-1'', Num (3/5))]"
    by (simp add: vectorSearch_def hr_query_low kb_fields del: map_results.simps)
  have wired: "vectorSearchFn cosine_text parse_vector 0 [hr_fragment] [hr_source] unit_query ''hr'' 5
                 = Inr []"
    by (simp add: vectorSearchFn_def vectorSearch_def DEFAULT_SIMILARITY_THRESHOLD_def
        hr_query_default)
  have parsed: "ragQueryInputSchema_parse low_threshold_query =
      Inr \<lparr> vi_query = ''vacation'', vi_sectorId = ''hr'', vi_conversationId = None,
            vi_maxResults = 5, vi_minSimilarity = 1/2 \<rparr>"
    by (simp add: ragQueryInputSchema_parse_def low_threshold_query_def DEFAULT_MAX_RESULTS_def
        MAX_RESULTS_LIMIT_def)
  have flow: "map_sum id (\<lambda>out. (ro_response out, ro_sources out))
     (fst (executeQuery unit_embed
             (vectorSearchFn cosine_text parse_vector 0 [hr_fragment] [hr_source])
             echo_generate 0 low_threshold_query))
     = Inr (FALLBACK_RESPONSE, [])"
    by (simp add: executeQuery_def parsed unit_embed_def wired)
  show ?thesis
    using repo flow by (simp add: low_threshold_query_def)
qed

section \<open>The contextual query\<close>

lemma nl_not_ws: "trim ''hi'' = ''hi''" "trim ''u1'' \<noteq> []" "trim ''hr'' \<noteq> []" "trim ''conv-1'' \<noteq> []"
  by (simp_all add: trim_def is_ws_def)

text \<open>
  C3: the code at the failing input.  For a user with no conversation yet and the query
  \<open>hi\<close>, the string handed to the RAG flow, and by the flow to the embedding step,
  is \<open>User: hi\<close>, a line break, \<open>User: hi\<close>: the user message is appended to the
  conversation before the context is built, so the context already holds the query.
\<close>

theorem C3_first_query_is_prefixed:
  "map rq_query (tr_ragInputs (snd (execute no_conversation_id no_conversation
       (executeQuery unit_embed one_hit echo_generate 0) conv_ids 0 first_question)))
     = [''User: hi'' @ nl @ ''User: hi''] \<and>
   hd (tr_ragCalls (snd (execute no_conversation_id no_conversation
       (executeQuery unit_embed one_hit echo_generate 0) conv_ids 0 first_question)))
     = EmbedCall (''User: hi'' @ nl @ ''User: hi'')"
  by (simp add: execute_def validateInput_def first_question_def nl_not_ws
      getOrCreateConversation_def no_conversation_def Conversation_new_def conv_ids_def
      Message_new_def addMessage_def buildContextualQuery_def hasMessages_def
      getContextForPrompt_def DEFAULT_CONTEXT_MESSAGE_LIMIT_def slice_last_def
      formatForPrompt_def role_name_def toUpperCase_def Let_def
      executeQuery_def ragQueryInputSchema_parse_def DEFAULT_MAX_RESULTS_def
      MAX_RESULTS_LIMIT_def DEFAULT_MIN_SIMILARITY_def unit_embed_def one_hit_def nl_def echo_generate_def)

section \<open>Batched embedding\<close>

lemma generateEmbedding_ok:
  assumes "cfg_apiKey c = Some key" "key \<noteq> []" "trim t \<noteq> []"
    "first_vector (provider (embed_request c task t)) = Inr v"
  shows "generateEmbedding provider c t task = (Inr v, [embed_request c task t])"
  using assms by (simp add: generateEmbedding_def es_validateInput_def)

lemma run_batch_ok:
  assumes "cfg_apiKey c = Some key" "key \<noteq> []"
    "\<forall>t \<in> set ts. trim t \<noteq> [] \<and> first_vector (provider (embed_request c task t)) = Inr (vec t)"
  shows "run_batch provider c task ts = (Inr (map vec ts), map (embed_request c task) ts)"
  using assms(3)
proof (induction ts)
  case Nil
  then show ?case by simp
next
  case (Cons t ts)
  then have "generateEmbedding provider c t task = (Inr (vec t), [embed_request c task t])"
    using generateEmbedding_ok [OF assms(1,2)] by simp
  with Cons show ?case by simp
qed

lemma window_append: "take k (drop i xs) @ drop (i + k) xs = drop i xs"
  by (metis add.commute append_take_drop_id drop_drop)

lemma embed_loop_ok:
  assumes "cfg_apiKey c = Some key" "key \<noteq> []" "0 < cfg_batchSize c"
    "\<forall>t \<in> set texts. trim t \<noteq> [] \<and> first_vector (provider (embed_request c task t)) = Inr (vec t)"
  shows "embed_loop provider c task texts i acc calls =
           Some (Inr (acc @ map vec (drop i texts)),
                 calls @ map (embed_request c task) (drop i texts))"
proof (induction "length texts - i" arbitrary: i acc calls rule: less_induct)
  case less
  show ?case
  proof (cases "i < length texts")
    case False
    then show ?thesis by (subst embed_loop.simps) simp
  next
    case True
    let ?k = "nat (cfg_batchSize c)"
    let ?batch = "take ?k (drop i texts)"
    have k: "0 < ?k" using assms(3) by simp
    have "\<forall>t \<in> set ?batch. trim t \<noteq> [] \<and>
            first_vector (provider (embed_request c task t)) = Inr (vec t)"
      using assms(4) by (meson in_set_dropD in_set_takeD)
    from run_batch_ok [OF assms(1,2) this]
    have rb: "run_batch provider c task ?batch =
                (Inr (map vec ?batch), map (embed_request c task) ?batch)" .
    have smaller: "length texts - (i + ?k) < length texts - i" using True k by arith
    have "embed_loop provider c task texts i acc calls =
            embed_loop provider c task texts (i + ?k) (acc @ map vec ?batch)
              (calls @ map (embed_request c task) ?batch)"
      using True rb by (subst embed_loop.simps) simp
    also have "\<dots> = Some (Inr ((acc @ map vec ?batch) @ map vec (drop (i + ?k) texts)),
         (calls @ map (embed_request c task) ?batch) @
           map (embed_request c task) (drop (i + ?k) texts))"
      by (rule less [OF smaller])
    also have "\<dots> = Some (Inr (acc @ map vec (drop i texts)),
                 calls @ map (embed_request c task) (drop i texts))"
      by (simp add: window_append flip: map_append)
    finally show ?thesis .
  qed
qed

lemma validate_all_ok: "\<forall>t \<in> set ts. trim t \<noteq> [] \<Longrightarrow> validate_all ts = Inr ()"
  by (induction ts) (auto simp: es_validateInput_def)

lemma validateConfig_batch: "validateConfig c = Inr () \<Longrightarrow> 0 < cfg_batchSize c"
  by (auto simp: validateConfig_def split: if_splits)

text \<open>
  C8.  For the empty list \<open>generateEmbeddings\<close> returns the empty list and issues no
  provider call.  For a service whose configuration passed validation (so the batch size
  is positive) and has an API key, for texts that are all non-blank, and a provider that
  answers each request with a vector, it terminates, returns one vector per text in the
  order of the texts, and has issued exactly one provider call per text, in that order.
\<close>

theorem C8_one_call_per_text:
  "generateEmbeddings provider c [] task = Some (Inr [], []) \<and>
   (validateConfig c = Inr () \<and> cfg_apiKey c = Some key \<and> key \<noteq> [] \<and>
    (\<forall>t \<in> set texts. trim t \<noteq> [] \<and>
        first_vector (provider (embed_request c task t)) = Inr (vec t))
    \<longrightarrow> generateEmbeddings provider c texts task =
          Some (Inr (map vec texts), map (embed_request c task) texts))"
proof (intro conjI impI)
  show "generateEmbeddings provider c [] task = Some (Inr [], [])"
    by (simp add: generateEmbeddings_def)
next
  assume a: "validateConfig c = Inr () \<and> cfg_apiKey c = Some key \<and> key \<noteq> [] \<and>
    (\<forall>t \<in> set texts. trim t \<noteq> [] \<and>
        first_vector (provider (embed_request c task t)) = Inr (vec t))"
  then have b: "0 < cfg_batchSize c" using validateConfig_batch by blast
  from a have v: "validate_all texts = Inr ()" using validate_all_ok by blast
  from a b have "embed_loop provider c task texts 0 [] [] =
      Some (Inr ([] @ map vec (drop 0 texts)), [] @ map (embed_request c task) (drop 0 texts))"
    by (intro embed_loop_ok) auto
  with v show "generateEmbeddings provider c texts task =
          Some (Inr (map vec texts), map (embed_request c task) texts)"
    by (cases texts) (simp_all add: generateEmbeddings_def)
qed

lemma trim_abc: "trim ''a'' \<noteq> []" "trim ''bb'' \<noteq> []" "trim ''ccc'' \<noteq> []"
  by (simp_all add: trim_def is_ws_def)

theorem C8_one_call_per_text_witness:
  "generateEmbeddings length_provider small_batch_config [''a'', ''bb'', ''ccc''] (Some RETRIEVAL_DOCUMENT)
     = Some (Inr [[1], [2], [3]],
             map (embed_request small_batch_config (Some RETRIEVAL_DOCUMENT)) [''a'', ''bb'', ''ccc''])"
proof -
  have cfg: "validateConfig small_batch_config = Inr ()"
    "cfg_apiKey small_batch_config = Some ''key''"
    by (simp_all add: validateConfig_def small_batch_config_def SUPPORTED_DIMENSIONS_def)
  have prov: "\<forall>t \<in> set [''a'', ''bb'', ''ccc'']. trim t \<noteq> [] \<and>
      first_vector (length_provider (embed_request small_batch_config (Some RETRIEVAL_DOCUMENT) t))
        = Inr [real (length t)]"
    by (simp add: trim_abc first_vector_def length_provider_def embed_request_def truncateText_def
        MAX_TOKEN_LIMIT_def CHARS_PER_TOKEN_ESTIMATE_def)
  from C8_one_call_per_text [of length_provider small_batch_config "Some RETRIEVAL_DOCUMENT"
      "''key''" "[''a'', ''bb'', ''ccc'']" "\<lambda>t. [real (length t)]"] cfg prov
  show ?thesis by simp
qed

section \<open>Ingestion failures\<close>

lemma trim_handbook: "trim ''Handbook'' \<noteq> []" "trim ''hr'' \<noteq> []"
  by (simp_all add: trim_def is_ws_def)

text \<open>
  C1: the code at the failing input.  The embedding step fails after the source has
  been persisted with status PROCESSING.  \<open>execute\<close> re-raises the error, as the claim
  says, but the persisted source still has status PROCESSING and no error message: the
  catch block only logs, and \<open>markAsFailed\<close> is never called.
\<close>

theorem C1_failure_leaves_processing:
  "fst (ingest_execute failing_embed_env 3 empty_db handbook_dto)
     = Inl (Error ''API rate limit exceeded'') \<and>
   map (\<lambda>m. (ksm_id m, ksm_status m, ksm_errorMessage m))
     (db_sources (snd (ingest_execute failing_embed_env 3 empty_db handbook_dto)))
     = [(''source-1'', ''PROCESSING'', None)]"
  by (simp add: ingest_execute_def ingest_validateInput_def handbook_dto_def trim_handbook
      trim_lit failing_embed_env_def KnowledgeSource_new_def ks_validate_def MAX_TITLE_LENGTH_def
      markAsProcessing_def ensureNotDeleted_def isDeleted_def saveSource_def ks_toModel_def
      ks_toDomain_def empty_db_def Let_def spread_def)

end
